theory Spec2Isabelle
  imports Main "HOL-Library.Word" "HOL-Library.AList" "HOL-Library.Sublist"
begin

section \<open>Python values\<close>

text \<open>
  The modifiers of \<^verbatim>\<open>object_util.py\<close> receive a configuration dictionary that was read
  from JSON. Its values are the Python values below. A float is kept as its 64-bit
  pattern: the modifiers only pass floats on, they never compute with them. \<open>POpaque\<close>
  stands for any other Python object, known by its identity only.
\<close>

datatype pyval =
    PNone
  | PBool bool
  | PInt int
  | PFloat "64 word"
  | PStr string
  | PList "pyval list"
  | PDict "(pyval \<times> pyval) list"
  | POpaque nat

text \<open>\<^verbatim>\<open>isinstance(x, int)\<close> is true of a bool as well: in Python \<^verbatim>\<open>bool\<close> is a subclass of
  \<^verbatim>\<open>int\<close>.\<close>

fun isinstance_int :: "pyval \<Rightarrow> bool" where
  "isinstance_int (PInt i) = True"
| "isinstance_int (PBool b) = True"
| "isinstance_int v = False"

fun isinstance_float :: "pyval \<Rightarrow> bool" where
  "isinstance_float (PFloat w) = True"
| "isinstance_float v = False"

fun isinstance_str :: "pyval \<Rightarrow> bool" where
  "isinstance_str (PStr s) = True"
| "isinstance_str v = False"

fun isinstance_dict :: "pyval \<Rightarrow> bool" where
  "isinstance_dict (PDict d) = True"
| "isinstance_dict v = False"

text \<open>Truth value of a Python value, as \<^verbatim>\<open>if x:\<close> and \<^verbatim>\<open>not x\<close> test it. Both float zeros
  are false.\<close>

fun truthy :: "pyval \<Rightarrow> bool" where
  "truthy PNone = False"
| "truthy (PBool b) = b"
| "truthy (PInt i) = (i \<noteq> 0)"
| "truthy (PFloat w) = (w \<noteq> 0 \<and> w \<noteq> 0x8000000000000000)"
| "truthy (PStr s) = (s \<noteq> [])"
| "truthy (PList xs) = (xs \<noteq> [])"
| "truthy (PDict d) = (d \<noteq> [])"
| "truthy (POpaque i) = True"

section \<open>Errors\<close>

text \<open>
  Every \<^verbatim>\<open>raise\<close> of the source is a value of this type. The constructors carry what the
  message of the source interpolates:
  \<^item> \<open>AssertionFailed\<close>: \<^verbatim>\<open>assertion.IsTrue(g_bInBlenderContext)\<close> failed;
  \<^item> \<open>ConfigTypeError\<close>: \<^verbatim>\<open>config.AssertConfigType\<close> rejected the dictionary;
  \<^item> \<open>ParamMissing f\<close>, \<open>ParamTypeError f\<close>: the parameter class rejected field \<open>f\<close>;
  \<^item> \<open>AttributeError a\<close>: Python found no attribute \<open>a\<close>;
  \<^item> \<open>TypeError\<close>: Python or the host rejected the type of an operand;
  \<^item> \<open>MissingValues\<close>: "Missing element 'mValues' in modify ... modifier";
  \<^item> \<open>InvalidKeyType k\<close>: "Invalid key type in modify attributes: k";
  \<^item> \<open>PropertyNotFound k n\<close>: "Property 'k' not found in object 'n'";
  \<^item> \<open>UnsupportedType k t\<close>: "Value for property 'k' of unsupported type 't'";
  \<^item> \<open>NoAttribute p k\<close>: "Object 'p' has no attribute 'k'";
  \<^item> \<open>CouldNotSet k n v\<close>: "Could not set attribute 'k' of object 'n' to value: v";
  \<^item> \<open>ParentNotFound p\<close>: "Object 'p' not found for parenting";
  \<^item> \<open>ReplaceNotGiven\<close>: "Element 'sReplace' not given in object rename modifier";
  \<^item> \<open>SearchNotGiven\<close>: "Element 'sSearch' not given in object rename modifier";
  \<^item> \<open>ReError\<close>: \<^verbatim>\<open>re.sub\<close> raised (a pattern or a template it cannot compile);
  \<^item> \<open>ExportPathMissing n p\<close>: "Export path for object ' n' does not exist: p";
  \<^item> \<open>TargetNotFound t\<close>: "Target object 't' not found";
  \<^item> \<open>UnsupportedRelation r\<close>: "Unsupported relation 'r'. Expect one of ...";
  \<^item> \<open>AttributesNotGiven\<close>: "List of object attribute names not given";
  \<^item> \<open>KeyError a n\<close>: "Attribute a not in n";
  \<^item> \<open>Host e\<close>: an operation of the host or of the operating system raised \<open>e\<close>, which
    the function does not catch.
  The errors of the host are a type of their own: \<open>OverflowError\<close> (the host cannot store
  an integer of that size), \<open>FileExistsError\<close> and \<open>NotADirectoryError\<close> (\<^verbatim>\<open>mkdir\<close> found a
  regular file in its way), and \<open>HostException c\<close> for any other exception, of class \<open>c\<close>.
\<close>

datatype host_error = OverflowError | FileExistsError | NotADirectoryError | HostException string

datatype error =
    AssertionFailed
  | ConfigTypeError
  | ParamMissing string
  | ParamTypeError string
  | AttributeError string
  | TypeError
  | MissingValues
  | InvalidKeyType pyval
  | PropertyNotFound string string
  | UnsupportedType string string
  | NoAttribute string string
  | CouldNotSet string string pyval
  | ParentNotFound pyval
  | ReplaceNotGiven
  | SearchNotGiven
  | ReError
  | ExportPathMissing string string
  | TargetNotFound pyval
  | UnsupportedRelation pyval
  | AttributesNotGiven
  | KeyError pyval string
  | Host host_error

section \<open>Parameter classes\<close>

text \<open>
  Each modifier declares a class decorated with \<^verbatim>\<open>@paramclass\<close> and builds an instance
  of it from the configuration dictionary. The decorator and \<^verbatim>\<open>CParamFields\<close> come from
  the package \<^verbatim>\<open>anybase\<close>, which is not part of the source tree. The declarations are in
  the source: the name, the type annotation, \<^verbatim>\<open>REQUIRED\<close> or \<^verbatim>\<open>DEFAULT(v)\<close>, and the
  \<^verbatim>\<open>DEPRECATED\<close> alias of every field.
\<close>

type_synonym config = "(string \<times> pyval) list"

datatype pytype = TStr | TBool | TDict | TList

datatype fieldreq = REQUIRED | DEFAULT pyval

datatype field = Field (fname: string) (ftype: pytype) (freq: fieldreq) (fdeprecated: "string option")

fun has_type :: "pytype \<Rightarrow> pyval \<Rightarrow> bool" where
  "has_type TStr v = isinstance_str v"
| "has_type TBool (PBool b) = True"
| "has_type TBool v = False"
| "has_type TDict v = isinstance_dict v"
| "has_type TList (PList xs) = True"
| "has_type TList v = False"

text \<open>
  Modelled from the spec: the schema check of \<^verbatim>\<open>anybase.dec.cls_paramclass\<close> is missing
  from the source tree. The spec describes it as "a schema check validates
  required/optional fields and applies defaults/deprecated-field aliases" over
  "required/optional typed fields with defaults and deprecated-name aliases, validated
  before use". So: a field is read under its name, else under its deprecated alias; a
  value that is present must have the declared type; an absent required field is an
  error; an absent optional field takes its default.
\<close>

definition field_value :: "field \<Rightarrow> config \<Rightarrow> error + pyval" where
  "field_value f dic =
     (let found =
        (case map_of dic (fname f) of
           Some v \<Rightarrow> Some v
         | None \<Rightarrow> (case fdeprecated f of None \<Rightarrow> None | Some a \<Rightarrow> map_of dic a))
      in case found of
           Some v \<Rightarrow> if has_type (ftype f) v then Inr v else Inl (ParamTypeError (fname f))
         | None \<Rightarrow>
             (case freq f of
                REQUIRED \<Rightarrow> Inl (ParamMissing (fname f))
              | DEFAULT d \<Rightarrow> Inr d))"

text \<open>
  Modelled from the spec: the instance the missing decorator builds, as the list of its
  attributes: one per declared field, in the order of declaration.
\<close>

fun paramclass :: "field list \<Rightarrow> config \<Rightarrow> error + (string \<times> pyval) list" where
  "paramclass [] dic = Inr []"
| "paramclass (f # fs) dic =
     (case field_value f dic of
        Inl e \<Rightarrow> Inl e
      | Inr v \<Rightarrow>
          (case paramclass fs dic of
             Inl e \<Rightarrow> Inl e
           | Inr mp \<Rightarrow> Inr ((fname f, v) # mp)))"

text \<open>\<^verbatim>\<open>mp.a\<close>: reading an attribute of the instance. Python raises \<^verbatim>\<open>AttributeError\<close> for
  a name the instance does not have.\<close>

definition mp_get :: "(string \<times> pyval) list \<Rightarrow> string \<Rightarrow> error + pyval" where
  "mp_get mp a = (case map_of mp a of None \<Rightarrow> Inl (AttributeError a) | Some v \<Rightarrow> Inr v)"

section \<open>Scene objects\<close>

text \<open>
  A scene object of the host, with the fields the modifiers read and write: its name, its
  type, the render-visibility flag, its custom properties (\<^verbatim>\<open>obj[key]\<close>), whether it is
  tagged for an update, and its children.
\<close>

datatype bobj =
  BObj (name: string) (otype: string) (hide_render: bool)
       (props: "(string \<times> pyval) list") (tagged: bool) (children: "bobj list")

text \<open>
  \<^verbatim>\<open>_objX.name = v\<close>: the host accepts a string only, and the name the object then has is
  the one the host's name setter stores: the host keeps names unique, non-empty and
  bounded in length, and it may raise. The setter is a parameter \<open>N\<close>: \<open>N s\<close> is the name
  the host stores for this object when \<open>s\<close> is assigned, or the error it raises.
\<close>

type_synonym name_setter = "string \<Rightarrow> host_error + string"

fun set_name :: "name_setter \<Rightarrow> bobj \<Rightarrow> pyval \<Rightarrow> error + bobj" where
  "set_name N (BObj n t h p g cs) (PStr s) =
     (case N s of Inl e \<Rightarrow> Inl (Host e) | Inr s' \<Rightarrow> Inr (BObj s' t h p g cs))"
| "set_name N ob v = Inl TypeError"

text \<open>
  The name setter of the host for examples, \<open>used\<close> being the names of the other objects
  of the file: the empty name becomes \<^verbatim>\<open>Object\<close>; a name is cut to 63 bytes (the bound
  of the host up to its version 4; later versions keep more); a name in
  use loses its numeric suffix (\<^verbatim>\<open>Cube.001\<close> gives \<^verbatim>\<open>Cube\<close>) and gets the first suffix
  \<^verbatim>\<open>.001\<close>, \<^verbatim>\<open>.002\<close>, ... that makes it free. It follows the host for ASCII names of fewer
  than 60 bytes and fewer than 999 objects; beyond that the host also shortens the name
  to make room for the suffix.
\<close>

definition is_digit :: "char \<Rightarrow> bool" where
  "is_digit c = (c \<in> set ''0123456789'')"

definition strip_number :: "string \<Rightarrow> string" where
  "strip_number s =
     (if takeWhile is_digit (rev s) = [] then s
      else (case dropWhile is_digit (rev s) of
              [] \<Rightarrow> s
            | c # r \<Rightarrow> if c = CHR ''.'' then rev r else s))"

definition pad3 :: "nat \<Rightarrow> string" where
  "pad3 n = map (\<lambda>d. ''0123456789'' ! d) [n div 100 mod 10, n div 10 mod 10, n mod 10]"

definition blender_name :: "string list \<Rightarrow> name_setter" where
  "blender_name used s =
     (let s1 = (if s = [] then ''Object'' else take 63 s) in
      if s1 \<notin> set used then Inr s1
      else (case List.find (\<lambda>c. c \<notin> set used)
                   (map (\<lambda>n. strip_number s1 @ ''.'' @ pad3 n) [1..<length used + 2]) of
              Some c \<Rightarrow> Inr c
            | None \<Rightarrow> Inr s1))"

section \<open>RenameObject\<close>

definition CRenameObjectParams :: "field list" where
  "CRenameObjectParams =
     [Field ''sDTI'' TStr REQUIRED (Some ''sType''),
      Field ''sReplace'' TStr REQUIRED None,
      Field ''bUseRegEx'' TBool (DEFAULT (PBool False)) (Some ''sUseRegEx''),
      Field ''sSearch'' TStr (DEFAULT (PStr '''')) None]"

text \<open>
  \<^verbatim>\<open>re.sub(pattern, repl, string)\<close> belongs to Python's standard library, and so does
  the regular-expression matcher behind it. The model follows the library's description
  of \<^verbatim>\<open>re.sub\<close>: it returns "the string obtained by replacing the leftmost
  non-overlapping occurrences of pattern in string by the replacement repl. If the
  pattern isn't found, string is returned unchanged"; in the replacement, references to
  capture groups are replaced by what the groups matched. The matcher is a parameter:
  \<^item> \<open>re_finditer pat s\<close>: the successive matches of \<open>pat\<close> that \<^verbatim>\<open>re.sub\<close> finds in
    \<open>s\<close>, each with its span (start, end) and what its groups captured; \<open>None\<close> when
    \<open>pat\<close> does not compile (\<^verbatim>\<open>re.error\<close>);
  \<^item> \<open>re_template_ok pat repl\<close>: whether \<open>repl\<close> is a valid replacement template for
    \<open>pat\<close> (\<^verbatim>\<open>re.error\<close> otherwise, for instance for a reference to a group that
    \<open>pat\<close> does not have);
  \<^item> \<open>re_expand repl m\<close>: the template \<open>repl\<close> with the groups of the match \<open>m\<close>
    substituted.
\<close>

type_synonym rmatch = "nat \<times> nat \<times> string option list"

record re_module =
  re_finditer :: "string \<Rightarrow> string \<Rightarrow> rmatch list option"
  re_template_ok :: "string \<Rightarrow> string \<Rightarrow> bool"
  re_expand :: "string \<Rightarrow> rmatch \<Rightarrow> string"

text \<open>The text of \<open>s\<close> from position \<open>pos\<close> on, with every match replaced by its
  expansion and the text between the matches kept.\<close>

fun splice :: "(rmatch \<Rightarrow> string) \<Rightarrow> string \<Rightarrow> nat \<Rightarrow> rmatch list \<Rightarrow> string" where
  "splice f s pos [] = drop pos s"
| "splice f s pos ((b, e, gs) # ms) =
     take (b - pos) (drop pos s) @ f (b, e, gs) @ splice f s e ms"

definition re_sub :: "re_module \<Rightarrow> string \<Rightarrow> string \<Rightarrow> string \<Rightarrow> string option" where
  "re_sub M pat repl s =
     (case re_finditer M pat s of
        None \<Rightarrow> None
      | Some ms \<Rightarrow>
          if re_template_ok M pat repl then Some (splice (re_expand M repl) s 0 ms)
          else None)"

text \<open>On an operand that is not a string \<^verbatim>\<open>re.sub\<close> raises \<^verbatim>\<open>TypeError\<close>.\<close>

fun py_re_sub :: "re_module \<Rightarrow> pyval \<Rightarrow> pyval \<Rightarrow> string \<Rightarrow> error + pyval" where
  "py_re_sub M (PStr pat) (PStr repl) s =
     (case re_sub M pat repl s of None \<Rightarrow> Inl ReError | Some r \<Rightarrow> Inr (PStr r))"
| "py_re_sub M pat repl s = Inl TypeError"

text \<open>
  An instance of the matcher for examples: on a pattern made of letters and digits only,
  which matches exactly itself, Python's matcher finds the occurrences of the pattern from
  left to right without overlap, and the empty pattern matches once at every position; a
  replacement without backslash is a valid template and expands to itself. On other
  patterns and templates this instance is not Python's matcher. \<open>skip\<close> counts the
  characters of the last match still to be passed.
\<close>

fun find_literal :: "string \<Rightarrow> string \<Rightarrow> nat \<Rightarrow> nat \<Rightarrow> rmatch list" where
  "find_literal pat [] pos skip = (if pat = [] then [(pos, pos, [Some []])] else [])"
| "find_literal pat (c # cs) pos (Suc k) = find_literal pat cs (Suc pos) k"
| "find_literal pat (c # cs) pos 0 =
     (if prefix pat (c # cs)
      then (pos, pos + length pat, [Some pat]) # find_literal pat cs (Suc pos) (length pat - 1)
      else find_literal pat cs (Suc pos) 0)"

definition re_literal :: re_module where
  "re_literal =
     \<lparr>re_finditer = (\<lambda>pat s. Some (find_literal pat s 0 0)),
      re_template_ok = (\<lambda>pat repl. CHR 0x5C \<notin> set repl),
      re_expand = (\<lambda>repl m. repl)\<rparr>"

definition RenameObject :: "name_setter \<Rightarrow> re_module \<Rightarrow> bobj \<Rightarrow> config \<Rightarrow> error + bobj" where
  "RenameObject N M objX dicMod =
     (case paramclass CRenameObjectParams dicMod of
        Inl e \<Rightarrow> Inl e
      | Inr mp \<Rightarrow>
          let sName = name objX in
          (case mp_get mp ''sReplace'' of
             Inl e \<Rightarrow> Inl e
           | Inr sReplace \<Rightarrow>
               if sReplace = PNone then Inl ReplaceNotGiven
               else
                 (case mp_get mp ''bUseRegEx'' of
                    Inl e \<Rightarrow> Inl e
                  | Inr bUseRegEx \<Rightarrow>
                      if truthy bUseRegEx then
                        (case mp_get mp ''sSearch'' of
                           Inl e \<Rightarrow> Inl e
                         | Inr sSearch \<Rightarrow>
                             if sSearch = PNone then Inl SearchNotGiven
                             else
                               (case py_re_sub M sSearch sReplace sName of
                                  Inl e \<Rightarrow> Inl e
                                | Inr sNewName \<Rightarrow> set_name N objX sNewName))
                      else set_name N objX sReplace)))"

section \<open>Enable\<close>

text \<open>
  The module-level flag \<^verbatim>\<open>g_bInBlenderContext\<close> and \<^verbatim>\<open>config.AssertConfigType\<close> of the
  package \<^verbatim>\<open>anybase\<close> are parameters of the modifiers that use them.
\<close>

record env =
  g_bInBlenderContext :: bool
  AssertConfigType :: "config \<Rightarrow> string \<Rightarrow> bool"

text \<open>\<^verbatim>\<open>_EnableRender(_objX, _bEnable, bRecursive=True)\<close>. The children of an object are
  objects of their own, so the hierarchy is a tree and the recursion follows it.\<close>

fun EnableRender :: "bobj \<Rightarrow> pyval \<Rightarrow> bool \<Rightarrow> bobj" where
  "EnableRender (BObj n t h p g cs) bEnable bRecursive =
     BObj n t (\<not> truthy bEnable) p g
       (if bRecursive then map (\<lambda>objC. EnableRender objC bEnable bRecursive) cs else cs)"

definition CEnableParams :: "field list" where
  "CEnableParams =
     [Field ''sDTI'' TStr REQUIRED (Some ''sType''),
      Field ''xValue'' TBool REQUIRED None]"

definition Enable :: "env \<Rightarrow> bobj \<Rightarrow> config \<Rightarrow> error + bobj" where
  "Enable ctx objX dicMod =
     (if \<not> g_bInBlenderContext ctx then Inl AssertionFailed
      else if \<not> AssertConfigType ctx dicMod ''/catharsys/blender/modify/object/enable:1.0''
      then Inl ConfigTypeError
      else
        (case paramclass CEnableParams dicMod of
           Inl e \<Rightarrow> Inl e
         | Inr mp \<Rightarrow>
             (case mp_get mp ''xValue'' of
                Inl e \<Rightarrow> Inl e
              | Inr bEnable \<Rightarrow> Inr (EnableRender objX bEnable True))))"

text \<open>
  The scene is the forest of its top-level objects. An object of the scene is known by
  its position: the index of a top-level object, then the index of a child, and so on.
  \<open>scene_at\<close> reads the object at a position, \<open>scene_put\<close> stores one there: it is how
  the mutation of the object a modifier received is seen from the scene.
\<close>

fun scene_at :: "nat list \<Rightarrow> bobj list \<Rightarrow> bobj option" where
  "scene_at [] obs = None"
| "scene_at (i # q) obs =
     (if i < length obs
      then (if q = [] then Some (obs ! i) else scene_at q (children (obs ! i)))
      else None)"

fun set_children :: "bobj \<Rightarrow> bobj list \<Rightarrow> bobj" where
  "set_children (BObj n t h p g cs) cs' = BObj n t h p g cs'"

fun scene_put :: "nat list \<Rightarrow> bobj \<Rightarrow> bobj list \<Rightarrow> bobj list" where
  "scene_put [] x obs = obs"
| "scene_put (i # q) x obs =
     (if i < length obs
      then (if q = [] then obs[i := x]
            else obs[i := set_children (obs ! i) (scene_put q x (children (obs ! i)))])
      else obs)"

text \<open>Two objects agree on every field but \<^verbatim>\<open>hide_render\<close> and the children's own
  fields.\<close>

definition same_fields :: "bobj \<Rightarrow> bobj \<Rightarrow> bool" where
  "same_fields a b =
     (name a = name b \<and> otype a = otype b \<and> props a = props b \<and> tagged a = tagged b \<and>
      length (children a) = length (children b))"

section \<open>ModifyProperties\<close>

definition CModifyPropertiesParams :: "field list" where
  "CModifyPropertiesParams =
     [Field ''sDTI'' TStr REQUIRED (Some ''sType''),
      Field ''mValues'' TDict REQUIRED None]"

text \<open>
  \<^verbatim>\<open>_objX[sKey] = xValue\<close> on the custom properties of the object is done by the host,
  which stores the value or raises. It is a parameter \<open>A\<close>: \<open>A objX k v\<close> is the object
  after the assignment, or the error raised, the object then being as before.
  \<open>set_prop\<close> is the store itself.
\<close>

type_synonym item_setter = "bobj \<Rightarrow> string \<Rightarrow> pyval \<Rightarrow> host_error + bobj"

fun set_prop :: "bobj \<Rightarrow> string \<Rightarrow> pyval \<Rightarrow> bobj" where
  "set_prop (BObj n t h p g cs) k v = BObj n t h (AList.update k v p) g cs"

text \<open>The item assignment of the host for examples: an integer is stored as a C
  \<^verbatim>\<open>int\<close>, and one outside its range raises \<^verbatim>\<open>OverflowError\<close>; other values are stored.\<close>

definition idprop_assign :: item_setter where
  "idprop_assign objX k v =
     (case v of
        PInt i \<Rightarrow>
          if - (2 ^ 31) \<le> i \<and> i < 2 ^ 31 then Inr (set_prop objX k v) else Inl OverflowError
      | _ \<Rightarrow> Inr (set_prop objX k v))"

text \<open>\<^verbatim>\<open>_objX.update_tag()\<close>.\<close>

fun update_tag :: "bobj \<Rightarrow> bobj" where
  "update_tag (BObj n t h p g cs) = BObj n t h p True cs"

text \<open>
  The loop over the items of the dictionary (a Python dictionary keeps the order of
  insertion). The object is mutated in place, so the result is the object as the loop
  leaves it, with the error when one was raised. \<^verbatim>\<open>convert.ToTypename\<close> of the package
  \<^verbatim>\<open>anybase\<close> is a parameter.
\<close>

fun ModifyProperties_loop ::
  "(pyval \<Rightarrow> string) \<Rightarrow> item_setter \<Rightarrow> bobj \<Rightarrow> (pyval \<times> pyval) list \<Rightarrow> error option \<times> bobj" where
  "ModifyProperties_loop ToTypename A objX [] = (None, objX)"
| "ModifyProperties_loop ToTypename A objX ((sKey, xValue) # items) =
     (case sKey of
        PStr k \<Rightarrow>
          if map_of (props objX) k = None
          then (Some (PropertyNotFound k (name objX)), objX)
          else if isinstance_int xValue \<or> isinstance_float xValue \<or> isinstance_str xValue
          then (case A objX k xValue of
                  Inl e \<Rightarrow> (Some (Host e), objX)
                | Inr objX' \<Rightarrow> ModifyProperties_loop ToTypename A objX' items)
          else (Some (UnsupportedType k (ToTypename xValue)), objX)
      | _ \<Rightarrow> (Some (InvalidKeyType sKey), objX))"

text \<open>
  The class declares the fields \<^verbatim>\<open>sDTI\<close> and \<^verbatim>\<open>mValues\<close>; the function reads
  \<^verbatim>\<open>mp.dicValues\<close>.
\<close>

definition ModifyProperties ::
  "(pyval \<Rightarrow> string) \<Rightarrow> item_setter \<Rightarrow> env \<Rightarrow> bobj \<Rightarrow> config \<Rightarrow> error option \<times> bobj" where
  "ModifyProperties ToTypename A ctx objX dicMod =
     (if \<not> g_bInBlenderContext ctx then (Some AssertionFailed, objX)
      else
        (case paramclass CModifyPropertiesParams dicMod of
           Inl e \<Rightarrow> (Some e, objX)
         | Inr mp \<Rightarrow>
             (case mp_get mp ''dicValues'' of
                Inl e \<Rightarrow> (Some e, objX)
              | Inr dicValues \<Rightarrow>
                  (case dicValues of
                     PDict items \<Rightarrow>
                       (case ModifyProperties_loop ToTypename A objX items of
                          (Some e, objX') \<Rightarrow> (Some e, objX')
                        | (None, objX') \<Rightarrow> (None, update_tag objX'))
                   | _ \<Rightarrow> (Some MissingValues, objX)))))"

section \<open>ModifyAttributes\<close>

text \<open>\<^verbatim>\<open>s.split(sep)\<close> for a separator of one character, and \<^verbatim>\<open>sep.join(xs)\<close>.\<close>

fun str_split :: "char \<Rightarrow> string \<Rightarrow> string list" where
  "str_split sep [] = [[]]"
| "str_split sep (c # cs) =
     (if c = sep then [] # str_split sep cs
      else (case str_split sep cs of
              [] \<Rightarrow> [[c]]
            | w # ws \<Rightarrow> (c # w) # ws))"

fun str_join :: "string \<Rightarrow> string list \<Rightarrow> string" where
  "str_join sep [] = []"
| "str_join sep [x] = x"
| "str_join sep (x # y # ys) = x @ sep @ str_join sep (y # ys)"

text \<open>
  The built-in attributes of a scene object belong to the host: what \<^verbatim>\<open>hasattr\<close>,
  \<^verbatim>\<open>getattr\<close> and \<^verbatim>\<open>setattr\<close> do is a parameter. \<open>'s\<close> is the state of the host and
  \<open>'r\<close> a reference to an object or value in it. \<open>setattr\<close> returns the new state, or
  \<open>None\<close> when the host raises, in which case the state is as before.
\<close>

record ('s, 'r) host =
  hasattr :: "'s \<Rightarrow> 'r \<Rightarrow> string \<Rightarrow> bool"
  getattr :: "'s \<Rightarrow> 'r \<Rightarrow> string \<Rightarrow> 'r"
  setattr :: "'s \<Rightarrow> 'r \<Rightarrow> string \<Rightarrow> pyval \<Rightarrow> 's option"
  objname :: "'s \<Rightarrow> 'r \<Rightarrow> string"

definition CModifyAttributesParams :: "field list" where
  "CModifyAttributesParams =
     [Field ''sDTI'' TStr REQUIRED (Some ''sType''),
      Field ''mValues'' TDict REQUIRED (Some ''dValues'')]"

text \<open>
  The inner loop \<^verbatim>\<open>for iIdx, sSubKey in enumerate(lKey)\<close>: \<open>n\<close> is \<^verbatim>\<open>len(lKey)\<close>, the list
  is what is left of \<^verbatim>\<open>lKey\<close>. It returns \<^verbatim>\<open>objY\<close> and \<^verbatim>\<open>sFinalKey\<close> (\<open>None\<close> when the
  loop ends without \<^verbatim>\<open>break\<close>).
\<close>

fun walk ::
  "('s, 'r) host \<Rightarrow> 's \<Rightarrow> 'r \<Rightarrow> string list \<Rightarrow> nat \<Rightarrow> nat \<Rightarrow> string list \<Rightarrow>
   error + ('r \<times> string option)" where
  "walk H s objY lPath n iIdx [] = Inr (objY, None)"
| "walk H s objY lPath n iIdx (sSubKey # lKey) =
     (if \<not> hasattr H s objY sSubKey
      then Inl (NoAttribute (str_join ''.'' lPath) sSubKey)
      else if int iIdx \<ge> int n - 1 then Inr (objY, Some sSubKey)
      else walk H s (getattr H s objY sSubKey) (lPath @ [sSubKey]) n (Suc iIdx) lKey)"

text \<open>The body of the outer loop for one item. \<^verbatim>\<open>setattr\<close> with \<^verbatim>\<open>sFinalKey = None\<close>
  raises, and \<^verbatim>\<open>except Exception\<close> catches whatever \<^verbatim>\<open>setattr\<close> raises.\<close>

definition ModifyAttributes_item ::
  "('s, 'r) host \<Rightarrow> 's \<Rightarrow> 'r \<Rightarrow> pyval \<Rightarrow> pyval \<Rightarrow> error option \<times> 's" where
  "ModifyAttributes_item H s objX sKey xValue =
     (case sKey of
        PStr k \<Rightarrow>
          (let lKey = str_split CHR ''.'' k;
               lPath = [objname H s objX]
           in case walk H s objX lPath (length lKey) 0 lKey of
                Inl e \<Rightarrow> (Some e, s)
              | Inr (objY, sFinalKey) \<Rightarrow>
                  (case (case sFinalKey of
                           None \<Rightarrow> None
                         | Some fk \<Rightarrow> setattr H s objY fk xValue) of
                     None \<Rightarrow> (Some (CouldNotSet k (objname H s objX) xValue), s)
                   | Some s' \<Rightarrow> (None, s')))
      | _ \<Rightarrow> (Some (InvalidKeyType sKey), s))"

fun ModifyAttributes_loop ::
  "('s, 'r) host \<Rightarrow> 's \<Rightarrow> 'r \<Rightarrow> (pyval \<times> pyval) list \<Rightarrow> error option \<times> 's" where
  "ModifyAttributes_loop H s objX [] = (None, s)"
| "ModifyAttributes_loop H s objX ((sKey, xValue) # items) =
     (case ModifyAttributes_item H s objX sKey xValue of
        (Some e, s') \<Rightarrow> (Some e, s')
      | (None, s') \<Rightarrow> ModifyAttributes_loop H s' objX items)"

definition ModifyAttributes ::
  "('s, 'r) host \<Rightarrow> env \<Rightarrow> 's \<Rightarrow> 'r \<Rightarrow> config \<Rightarrow> error option \<times> 's" where
  "ModifyAttributes H ctx s objX dicMod =
     (case paramclass CModifyAttributesParams dicMod of
        Inl e \<Rightarrow> (Some e, s)
      | Inr mp \<Rightarrow>
          if \<not> g_bInBlenderContext ctx then (Some AssertionFailed, s)
          else
            (case mp_get mp ''mValues'' of
               Inl e \<Rightarrow> (Some e, s)
             | Inr dicValues \<Rightarrow>
                 (case dicValues of
                    PDict items \<Rightarrow> ModifyAttributes_loop H s objX items
                  | _ \<Rightarrow> (Some MissingValues, s))))"

text \<open>
  The dotted-path assignment in the words of the specification, to compare the loop with:
  the key is split on "." into segments; \<open>first_missing\<close> is the first segment that is
  absent on the object reached through the segments before it; when there is one, the
  error names the path walked so far and the missing segment, and nothing is assigned;
  when there is none, the final segment is assigned on the object reached through the
  other segments, and a failure of that assignment is reported with the whole key, the
  name of the object and the value.
\<close>

definition first_missing :: "('s, 'r) host \<Rightarrow> 's \<Rightarrow> 'r \<Rightarrow> string list \<Rightarrow> nat option" where
  "first_missing H s objX segs =
     List.find (\<lambda>i. \<not> hasattr H s (foldl (getattr H s) objX (take i segs)) (segs ! i))
       [0..<length segs]"

definition dotted_assign_spec ::
  "('s, 'r) host \<Rightarrow> 's \<Rightarrow> 'r \<Rightarrow> string \<Rightarrow> pyval \<Rightarrow> error option \<times> 's" where
  "dotted_assign_spec H s objX sKey xValue =
     (let segs = str_split CHR ''.'' sKey in
      case first_missing H s objX segs of
        Some i \<Rightarrow>
          (Some (NoAttribute (str_join ''.'' (objname H s objX # take i segs)) (segs ! i)), s)
      | None \<Rightarrow>
          (case setattr H s (foldl (getattr H s) objX (butlast segs)) (last segs) xValue of
             None \<Rightarrow> (Some (CouldNotSet sKey (objname H s objX) xValue), s)
           | Some s' \<Rightarrow> (None, s')))"

text \<open>
  The whole modifier in the words of the specification: the dotted-path assignment is
  done for every key of the values map, in the order of the map, and the first error
  ends it. A key that is not a string is rejected.
\<close>

fun dotted_assign_items ::
  "('s, 'r) host \<Rightarrow> 's \<Rightarrow> 'r \<Rightarrow> (pyval \<times> pyval) list \<Rightarrow> error option \<times> 's" where
  "dotted_assign_items H s objX [] = (None, s)"
| "dotted_assign_items H s objX ((PStr sKey, xValue) # items) =
     (case dotted_assign_spec H s objX sKey xValue of
        (Some e, s') \<Rightarrow> (Some e, s')
      | (None, s') \<Rightarrow> dotted_assign_items H s' objX items)"
| "dotted_assign_items H s objX ((k, xValue) # items) = (Some (InvalidKeyType k), s)"

text \<open>
  A host for examples: the state lists the attributes that exist, each under its path
  from the object, with its value; a reference is a path; \<^verbatim>\<open>setattr\<close> stores the value
  and never raises; the name of an object is the value of its attribute \<^verbatim>\<open>name\<close>.
\<close>

definition flat_host :: "((string list \<times> pyval) list, string list) host" where
  "flat_host =
     \<lparr>hasattr = (\<lambda>s r k. map_of s (r @ [k]) \<noteq> None),
      getattr = (\<lambda>s r k. r @ [k]),
      setattr = (\<lambda>s r k v. Some (AList.update (r @ [k]) v s)),
      objname = (\<lambda>s r. case map_of s (r @ [''name'']) of Some (PStr n) \<Rightarrow> n | _ \<Rightarrow> [])\<rparr>"

section \<open>Calls into the host\<close>

text \<open>
  The modifiers below act through routines of the host's companion libraries. What the
  routines do is outside the source; the model records which routine is called, in which
  order and with which arguments:
  \<^item> \<open>ParentAnyCam c p\<close>: \<^verbatim>\<open>camops.ParentAnyCam(sCamId=c, sParentId=p)\<close>;
  \<^item> \<open>ParentObject p c k\<close>: \<^verbatim>\<open>anyobj.ParentObject(p, c, bKeepTransform=k)\<close>, the objects
    given by their names;
  \<^item> \<open>ViewLayerUpdate\<close>: \<^verbatim>\<open>anyvl.Update()\<close>;
  \<^item> \<open>Hide n h r b\<close>: \<^verbatim>\<open>anyobj.Hide(obj, bHide=h, bHideRender=r, bRecursive=b)\<close>;
  \<^item> \<open>PrintLogging n f\<close>: the line "=== Logging n ===", with " to file f" when a file is
    given;
  \<^item> \<open>PrintDict d\<close>: \<^verbatim>\<open>print(dicJson)\<close>;
  \<^item> \<open>WriteJson f d\<close>: \<^verbatim>\<open>json.dump(dicJson, file, indent=4, ...)\<close> into the file \<open>f\<close>
    opened for writing.
\<close>

datatype call =
    ParentAnyCam string pyval
  | ParentObject string string pyval
  | ViewLayerUpdate
  | Hide string bool bool bool
  | PrintLogging string "pyval option"
  | PrintDict "(pyval \<times> pyval) list"
  | WriteJson pyval "(pyval \<times> pyval) list"

text \<open>\<^verbatim>\<open>bpy.data.objects.get(key)\<close> on the objects of the scene file: the object of that
  name, \<^verbatim>\<open>None\<close> when there is none; the key must be a string.\<close>

fun objects_get :: "bobj list \<Rightarrow> pyval \<Rightarrow> error + bobj option" where
  "objects_get obs (PStr s) = Inr (List.find (\<lambda>ob. name ob = s) obs)"
| "objects_get obs v = Inl TypeError"

section \<open>ParentToObject\<close>

definition CParentToObjectParams :: "field list" where
  "CParentToObjectParams =
     [Field ''sDTI'' TStr REQUIRED (Some ''sType''),
      Field ''sParentObject'' TStr REQUIRED None,
      Field ''bKeepTransform'' TBool (DEFAULT (PBool False)) None,
      Field ''bSkipNonexistingParent'' TBool (DEFAULT (PBool False)) None]"

text \<open>The result is the error, if one was raised, and the calls made up to then.\<close>

definition ParentToObject :: "bobj list \<Rightarrow> bobj \<Rightarrow> config \<Rightarrow> error option \<times> call list" where
  "ParentToObject obs objX dicMod =
     (case paramclass CParentToObjectParams dicMod of
        Inl e \<Rightarrow> (Some e, [])
      | Inr mp \<Rightarrow>
          if otype objX = ''CAMERA''
          then
            (case mp_get mp ''sParentObject'' of
               Inl e \<Rightarrow> (Some e, [])
             | Inr sParentObject \<Rightarrow>
                 (None, [ParentAnyCam (name objX) sParentObject, ViewLayerUpdate]))
          else
            (case mp_get mp ''sParentObject'' of
               Inl e \<Rightarrow> (Some e, [])
             | Inr sParentObject \<Rightarrow>
                 (case objects_get obs sParentObject of
                    Inl e \<Rightarrow> (Some e, [])
                  | Inr None \<Rightarrow>
                      (case mp_get mp ''bSkipNonexistingParent'' of
                         Inl e \<Rightarrow> (Some e, [])
                       | Inr bSkip \<Rightarrow>
                           if \<not> truthy bSkip then (Some (ParentNotFound sParentObject), [])
                           else (None, [ViewLayerUpdate]))
                  | Inr (Some objParent) \<Rightarrow>
                      (case mp_get mp ''bKeepTransform'' of
                         Inl e \<Rightarrow> (Some e, [])
                       | Inr bKeepTransform \<Rightarrow>
                           (None, [ParentObject (name objParent) (name objX) bKeepTransform,
                                   ViewLayerUpdate])))))"

section \<open>ExportObjectObj\<close>


text \<open>
  Paths and the file system belong to \<^verbatim>\<open>pathlib\<close>, the operating system and the host.
  \<open>'p\<close> is the type of paths and \<open>'f\<close> the state of the file system; the operations the
  function uses are parameters:
  \<^item> \<open>MakeNormPath\<close>: \<^verbatim>\<open>path.MakeNormPath\<close> of the package \<^verbatim>\<open>anybase\<close>, which takes a
    string or a path;
  \<^item> \<open>pathBlend\<close>: the directory of the active scene file, \<^verbatim>\<open>Path(bpy.path.abspath("//"))\<close>;
  \<^item> \<open>is_absolute\<close>, \<open>joinpath\<close>, \<open>parent\<close>, \<open>as_posix\<close>: \<^verbatim>\<open>p.is_absolute()\<close>, \<^verbatim>\<open>a / b\<close>,
    \<^verbatim>\<open>p.parent\<close>, \<^verbatim>\<open>p.as_posix()\<close>, which differ between POSIX and Windows paths;
  \<^item> \<open>exists\<close>: \<^verbatim>\<open>p.exists()\<close>;
  \<^item> \<open>mkdir\<close>: \<^verbatim>\<open>p.mkdir(parents=True, exist_ok=True)\<close>, which gives the file system it
    leaves and the error it raised, if any.
  \<open>ExportFromScene_Obj f n\<close> records the call \<^verbatim>\<open>objops.ExportFromScene_Obj(f, obj)\<close> for the
  object named \<open>n\<close>.
\<close>

record ('p, 'f) export_env =
  MakeNormPath :: "string + 'p \<Rightarrow> 'p"
  pathBlend :: 'p
  is_absolute :: "'p \<Rightarrow> bool"
  joinpath :: "'p \<Rightarrow> 'p \<Rightarrow> 'p"
  parent :: "'p \<Rightarrow> 'p"
  as_posix :: "'p \<Rightarrow> string"
  exists :: "'f \<Rightarrow> 'p \<Rightarrow> bool"
  mkdir :: "'f \<Rightarrow> 'p \<Rightarrow> host_error option \<times> 'f"



text \<open>
  Paths and a file system for examples. A POSIX path: whether it is absolute, and its
  components after the root; the empty relative path is \<^verbatim>\<open>Path(".")\<close>. A string is
  read by splitting it at "/" (no \<^verbatim>\<open>..\<close>, no home directory, no variables). The file
  system lists what exists, directories and regular files, without links and without
  permissions: \<^verbatim>\<open>mkdir\<close> with \<^verbatim>\<open>parents=True\<close> raises when the path is a regular file or
  lies under one, creating nothing, and otherwise creates the missing ancestors and the
  directory.
\<close>

datatype ppath = PPath (absolute: bool) (parts: "string list")





datatype kind = Directory | RegularFile

definition posix_ancestors :: "ppath \<Rightarrow> ppath list" where
  "posix_ancestors p =
     map (\<lambda>n. PPath (absolute p) (take n (parts p))) [0..<Suc (length (parts p))]"

definition posix_mkdir ::
  "(ppath \<times> kind) list \<Rightarrow> ppath \<Rightarrow> host_error option \<times> (ppath \<times> kind) list" where
  "posix_mkdir fs p =
     (if map_of fs p = Some RegularFile then (Some FileExistsError, fs)
      else if list_ex (\<lambda>a. map_of fs a = Some RegularFile) (posix_ancestors p)
      then (Some NotADirectoryError, fs)
      else (None, fs @ map (\<lambda>a. (a, Directory))
                         (filter (\<lambda>a. map_of fs a = None) (posix_ancestors p))))"


section \<open>EnableIfBoundBox and LogObject\<close>

text \<open>
  Both functions bind \<^verbatim>\<open>mp\<close> to the parameter class itself (\<^verbatim>\<open>mp = CEnableIfBoundBoxParams\<close>,
  \<^verbatim>\<open>mp = CLogObjectParams\<close>), not to an instance built from \<^verbatim>\<open>_dicMod\<close>. What the
  attributes of the decorated class are is decided by the decorator, which is not in the
  source tree: the attributes of the class are a parameter \<open>cls\<close>, read like those of an
  instance.

  The bounding-box tests of \<^verbatim>\<open>anyblend.cls_boundbox.CBoundingBox\<close> are parameters. Each
  takes the target object and \<^verbatim>\<open>_bCompoundObject\<close>, from which the box is built, the
  object tested and \<^verbatim>\<open>_fBorder\<close>.
\<close>

record boundbox =
  IsObjectInside :: "bobj \<Rightarrow> pyval \<Rightarrow> bobj \<Rightarrow> pyval \<Rightarrow> bool"
  IsObjectOutside :: "bobj \<Rightarrow> pyval \<Rightarrow> bobj \<Rightarrow> pyval \<Rightarrow> bool"
  IsObjectIntersect :: "bobj \<Rightarrow> pyval \<Rightarrow> bobj \<Rightarrow> pyval \<Rightarrow> bool"

text \<open>The \<^verbatim>\<open>match mp.sRelation\<close> statement: \<open>None\<close> when no case matches, so that
  \<^verbatim>\<open>bEnable\<close> stays \<^verbatim>\<open>None\<close>.\<close>

definition match_relation ::
  "boundbox \<Rightarrow> (string \<times> pyval) list \<Rightarrow> bobj \<Rightarrow> pyval \<Rightarrow> bobj \<Rightarrow> pyval \<Rightarrow>
   error + bool option" where
  "match_relation B mp objTarget bCompoundTarget objX sRelation =
     (if sRelation = PStr ''INSIDE'' then
        (case mp_get mp ''fBorder'' of
           Inl e \<Rightarrow> Inl e
         | Inr fBorder \<Rightarrow> Inr (Some (IsObjectInside B objTarget bCompoundTarget objX fBorder)))
      else if sRelation = PStr ''OUTSIDE'' then
        (case mp_get mp ''fBorder'' of
           Inl e \<Rightarrow> Inl e
         | Inr fBorder \<Rightarrow> Inr (Some (IsObjectOutside B objTarget bCompoundTarget objX fBorder)))
      else if sRelation = PStr ''INTERSECT'' then
        (case mp_get mp ''fBorder'' of
           Inl e \<Rightarrow> Inl e
         | Inr fBorder \<Rightarrow> Inr (Some (IsObjectIntersect B objTarget bCompoundTarget objX fBorder)))
      else Inr None)"

definition EnableIfBoundBox ::
  "env \<Rightarrow> (string \<times> pyval) list \<Rightarrow> boundbox \<Rightarrow> bobj list \<Rightarrow> bobj \<Rightarrow> config \<Rightarrow>
   error option \<times> call list" where
  "EnableIfBoundBox ctx cls B obs objX dicMod =
     (if \<not> g_bInBlenderContext ctx then (Some AssertionFailed, [])
      else if \<not> AssertConfigType ctx dicMod
                   ''/catharsys/blender/modify/object/enable-if/bound-box:1.0''
      then (Some ConfigTypeError, [])
      else
        (let mp = cls in
         case mp_get mp ''sTarget'' of
           Inl e \<Rightarrow> (Some e, [])
         | Inr sTarget \<Rightarrow>
             (case objects_get obs sTarget of
                Inl e \<Rightarrow> (Some e, [])
              | Inr None \<Rightarrow> (Some (TargetNotFound sTarget), [])
              | Inr (Some objTarget) \<Rightarrow>
                  (case mp_get mp ''bCompoundTarget'' of
                     Inl e \<Rightarrow> (Some e, [])
                   | Inr bCompoundTarget \<Rightarrow>
                       (case mp_get mp ''sRelation'' of
                          Inl e \<Rightarrow> (Some e, [])
                        | Inr sRelation \<Rightarrow>
                            (case match_relation B mp objTarget bCompoundTarget objX sRelation of
                               Inl e \<Rightarrow> (Some e, [])
                             | Inr None \<Rightarrow> (Some (UnsupportedRelation sRelation), [])
                             | Inr (Some bEnable) \<Rightarrow>
                                 (None, [Hide (name objX) (\<not> bEnable) (\<not> bEnable) True])))))))"

text \<open>
  For \<^verbatim>\<open>LogObject\<close>: what iterating over a value yields (\<open>None\<close> when Python raises
  \<^verbatim>\<open>TypeError\<close>, the value not being iterable), with the elements of an object outside
  the JSON values given by the parameter \<open>iter_opaque\<close>; the built-in attributes of a
  scene object (\<^verbatim>\<open>hasattr\<close>, \<^verbatim>\<open>getattr\<close>) and \<^verbatim>\<open>json.loads\<close> (\<open>None\<close> when it raises) are
  parameters as well.
\<close>

record log_env =
  iter_opaque :: "nat \<Rightarrow> pyval list option"
  builtin_attr :: "bobj \<Rightarrow> string \<Rightarrow> pyval option"
  json_loads :: "pyval \<Rightarrow> pyval option"

fun py_iter :: "log_env \<Rightarrow> pyval \<Rightarrow> pyval list option" where
  "py_iter L (PList xs) = Some xs"
| "py_iter L (PStr s) = Some (map (\<lambda>c. PStr [c]) s)"
| "py_iter L (PDict d) = Some (map fst d)"
| "py_iter L (POpaque i) = iter_opaque L i"
| "py_iter L v = None"

text \<open>The loop \<^verbatim>\<open>for sAttr in mp.lAttributes\<close>, with \<^verbatim>\<open>dicJson\<close> as accumulator. A name that
  is not a string is rejected by the host with \<^verbatim>\<open>TypeError\<close>.\<close>

fun LogObject_loop ::
  "log_env \<Rightarrow> bobj \<Rightarrow> (pyval \<times> pyval) list \<Rightarrow> pyval list \<Rightarrow> error + (pyval \<times> pyval) list" where
  "LogObject_loop L objX dicJson [] = Inr dicJson"
| "LogObject_loop L objX dicJson (sAttr # rest) =
     (case sAttr of
        PStr a \<Rightarrow>
          (case (case map_of (props objX) a of
                   Some v \<Rightarrow> Some v
                 | None \<Rightarrow> builtin_attr L objX a) of
             None \<Rightarrow> Inl (KeyError sAttr (name objX))
           | Some xAttribute \<Rightarrow>
               LogObject_loop L objX
                 (AList.update sAttr
                    (case json_loads L xAttribute of Some j \<Rightarrow> j | None \<Rightarrow> xAttribute)
                    dicJson)
                 rest)
      | _ \<Rightarrow> Inl TypeError)"

definition LogObject ::
  "log_env \<Rightarrow> (string \<times> pyval) list \<Rightarrow> bobj \<Rightarrow> config \<Rightarrow> error option \<times> call list" where
  "LogObject L cls objX dicMod =
     (let mp = cls in
      case mp_get mp ''lAttributes'' of
        Inl e \<Rightarrow> (Some e, [])
      | Inr lAttributes \<Rightarrow>
          if lAttributes = PNone then (Some AttributesNotGiven, [])
          else
            (case py_iter L lAttributes of
               None \<Rightarrow> (Some TypeError, [])
             | Some attrs \<Rightarrow>
                 (case LogObject_loop L objX [] attrs of
                    Inl e \<Rightarrow> (Some e, [])
                  | Inr dicJson \<Rightarrow>
                      (case mp_get mp ''sLogFile'' of
                         Inl e \<Rightarrow> (Some e, [])
                       | Inr sLogFile \<Rightarrow>
                           if sLogFile \<noteq> PNone
                           then (None, [PrintLogging (name objX) (Some sLogFile),
                                        WriteJson sLogFile dicJson])
                           else (None, [PrintLogging (name objX) None, PrintDict dicJson])))))"

section \<open>Properties of the parameter classes\<close>

lemma field_value_typed:
  "field_value f dic = Inr v \<Longrightarrow>
     has_type (ftype f) v \<or> (freq f = DEFAULT v \<and> map_of dic (fname f) = None)"
  by (auto simp: field_value_def Let_def split: option.splits if_splits fieldreq.splits)

lemma CRenameObjectParams_instance:
  assumes "paramclass CRenameObjectParams dicMod = Inr mp"
  shows "\<exists>d r b s. mp = [(''sDTI'', PStr d), (''sReplace'', PStr r),
                          (''bUseRegEx'', PBool b), (''sSearch'', PStr s)]"
proof -
  from assms obtain v1 v2 v3 v4 where
    v: "field_value (Field ''sDTI'' TStr REQUIRED (Some ''sType'')) dicMod = Inr v1"
       "field_value (Field ''sReplace'' TStr REQUIRED None) dicMod = Inr v2"
       "field_value (Field ''bUseRegEx'' TBool (DEFAULT (PBool False)) (Some ''sUseRegEx'')) dicMod = Inr v3"
       "field_value (Field ''sSearch'' TStr (DEFAULT (PStr '''')) None) dicMod = Inr v4"
    and mp: "mp = [(''sDTI'', v1), (''sReplace'', v2), (''bUseRegEx'', v3), (''sSearch'', v4)]"
    by (auto simp: CRenameObjectParams_def split: sum.splits)
  from field_value_typed [OF v(1)] obtain d where "v1 = PStr d"
    by (cases v1) auto
  moreover from field_value_typed [OF v(2)] obtain r where "v2 = PStr r"
    by (cases v2) auto
  moreover from field_value_typed [OF v(3)] obtain b where "v3 = PBool b"
    by (cases v3) auto
  moreover from field_value_typed [OF v(4)] obtain s where "v4 = PStr s"
    by (cases v4) auto
  ultimately show ?thesis using mp by blast
qed

lemma field_value_error:
  "field_value f dic = Inl e \<Longrightarrow> e = ParamMissing (fname f) \<or> e = ParamTypeError (fname f)"
  by (auto simp: field_value_def Let_def split: option.splits if_splits fieldreq.splits)

lemma paramclass_error:
  "paramclass fs dic = Inl e \<Longrightarrow> (\<exists>f. e = ParamMissing f) \<or> (\<exists>f. e = ParamTypeError f)"
proof (induction fs)
  case Nil
  then show ?case by simp
next
  case (Cons f fs)
  then show ?case
    by (auto split: sum.splits dest: field_value_error)
qed

lemma paramclass_names: "paramclass fs dic = Inr mp \<Longrightarrow> map fst mp = map fname fs"
  by (induction fs arbitrary: mp) (auto split: sum.splits)

lemma field_value_default:
  "map_of dic (fname f) = None \<Longrightarrow> fdeprecated f = None \<Longrightarrow> freq f = DEFAULT d \<Longrightarrow>
     field_value f dic = Inr d"
  by (simp add: field_value_def)

lemma CEnableParams_instance:
  assumes "paramclass CEnableParams dicMod = Inr mp"
  shows "\<exists>d x. mp = [(''sDTI'', PStr d), (''xValue'', PBool x)]"
proof -
  from assms obtain v1 v2 where
    v: "field_value (Field ''sDTI'' TStr REQUIRED (Some ''sType'')) dicMod = Inr v1"
       "field_value (Field ''xValue'' TBool REQUIRED None) dicMod = Inr v2"
    and mp: "mp = [(''sDTI'', v1), (''xValue'', v2)]"
    by (auto simp: CEnableParams_def split: sum.splits)
  from field_value_typed [OF v(1)] obtain d where "v1 = PStr d"
    by (cases v1) auto
  moreover from field_value_typed [OF v(2)] obtain x where "v2 = PBool x"
    by (cases v2) auto
  ultimately show ?thesis using mp by blast
qed

lemma CParentToObjectParams_instance:
  assumes "paramclass CParentToObjectParams dicMod = Inr mp"
  shows "\<exists>d sp k sk. mp = [(''sDTI'', PStr d), (''sParentObject'', PStr sp),
                          (''bKeepTransform'', PBool k), (''bSkipNonexistingParent'', PBool sk)]"
proof -
  from assms obtain v1 v2 v3 v4 where
    v: "field_value (Field ''sDTI'' TStr REQUIRED (Some ''sType'')) dicMod = Inr v1"
       "field_value (Field ''sParentObject'' TStr REQUIRED None) dicMod = Inr v2"
       "field_value (Field ''bKeepTransform'' TBool (DEFAULT (PBool False)) None) dicMod = Inr v3"
       "field_value (Field ''bSkipNonexistingParent'' TBool (DEFAULT (PBool False)) None) dicMod = Inr v4"
    and mp: "mp = [(''sDTI'', v1), (''sParentObject'', v2), (''bKeepTransform'', v3),
                   (''bSkipNonexistingParent'', v4)]"
    by (auto simp: CParentToObjectParams_def split: sum.splits)
  from field_value_typed [OF v(1)] obtain d where "v1 = PStr d"
    by (cases v1) auto
  moreover from field_value_typed [OF v(2)] obtain sp where "v2 = PStr sp"
    by (cases v2) auto
  moreover from field_value_typed [OF v(3)] obtain k where "v3 = PBool k"
    by (cases v3) auto
  moreover from field_value_typed [OF v(4)] obtain sk where "v4 = PBool sk"
    by (cases v4) auto
  ultimately show ?thesis using mp by blast
qed


lemma CModifyAttributesParams_instance:
  assumes "paramclass CModifyAttributesParams dicMod = Inr mp"
  shows "\<exists>d items. mp = [(''sDTI'', PStr d), (''mValues'', PDict items)]"
proof -
  from assms obtain v1 v2 where
    v: "field_value (Field ''sDTI'' TStr REQUIRED (Some ''sType'')) dicMod = Inr v1"
       "field_value (Field ''mValues'' TDict REQUIRED (Some ''dValues'')) dicMod = Inr v2"
    and mp: "mp = [(''sDTI'', v1), (''mValues'', v2)]"
    by (auto simp: CModifyAttributesParams_def split: sum.splits)
  from field_value_typed [OF v(1)] obtain d where "v1 = PStr d"
    by (cases v1) auto
  moreover from field_value_typed [OF v(2)] obtain items where "v2 = PDict items"
    by (cases v2) auto
  ultimately show ?thesis using mp by blast
qed

section \<open>RenameObject: literal and regular-expression renaming\<close>

lemma blender_name_keeps:
  "s \<noteq> [] \<Longrightarrow> length s \<le> 63 \<Longrightarrow> s \<notin> set used \<Longrightarrow> blender_name used s = Inr s"
  by (simp add: blender_name_def)

text \<open>
  Claim C3 as it is stated fails: the name is assigned through the host, which keeps
  names unique and non-empty. With \<^verbatim>\<open>bUseRegEx\<close> false and \<^verbatim>\<open>sReplace\<close> the string
  \<^verbatim>\<open>Box\<close>, while another object is named \<^verbatim>\<open>Box\<close>, the object is named \<^verbatim>\<open>Box.001\<close>
  afterwards; with \<^verbatim>\<open>sReplace\<close> the empty string it is named \<^verbatim>\<open>Object\<close>.
\<close>

theorem RenameObject_literal_counterexample:
  "RenameObject (blender_name [''Box'']) re_literal
     (BObj ''Cube'' ''MESH'' False [] False [])
     [(''sDTI'', PStr ''/catharsys/blender/modify/object/rename:1.0''),
      (''sReplace'', PStr ''Box'')] =
   Inr (BObj ''Box.001'' ''MESH'' False [] False []) \<and>
   ''Box.001'' \<noteq> ''Box'' \<and>
   RenameObject (blender_name []) re_literal
     (BObj ''Cube'' ''MESH'' False [] False [])
     [(''sDTI'', PStr ''/catharsys/blender/modify/object/rename:1.0''),
      (''sReplace'', PStr '''')] =
   Inr (BObj ''Object'' ''MESH'' False [] False []) \<and>
   ''Object'' \<noteq> ''''"
  by (simp add: RenameObject_def CRenameObjectParams_def field_value_def mp_get_def
        blender_name_def strip_number_def pad3_def is_digit_def)

text \<open>
  Claim C3, amended. For every object and every configuration the parameter class
  accepts in which \<^verbatim>\<open>bUseRegEx\<close> is false (given as false, or absent), \<^verbatim>\<open>RenameObject\<close>
  assigns exactly the string \<^verbatim>\<open>sReplace\<close> to the object's name, whatever the previous
  name \<open>n\<close>, the value of \<^verbatim>\<open>sSearch\<close> and the matcher are: the object is then named as
  the host's name setter stores that string (or the setter's error is raised), and no
  other field changes. With the host's setter the name is exactly \<^verbatim>\<open>sReplace\<close> when that
  is not empty, at most 63 bytes long and not the name of another object.
\<close>

theorem RenameObject_literal_stored:
  assumes "paramclass CRenameObjectParams dicMod = Inr mp"
      and "mp_get mp ''bUseRegEx'' = Inr (PBool False)"
  shows "\<exists>r. mp_get mp ''sReplace'' = Inr (PStr r) \<and>
             RenameObject N M (BObj n t h p g cs) dicMod =
               (case N r of Inl e \<Rightarrow> Inl (Host e) | Inr r' \<Rightarrow> Inr (BObj r' t h p g cs)) \<and>
             (r \<noteq> [] \<and> length r \<le> 63 \<and> r \<notin> set used \<longrightarrow>
                RenameObject (blender_name used) M (BObj n t h p g cs) dicMod =
                  Inr (BObj r t h p g cs))"
proof -
  from CRenameObjectParams_instance [OF assms(1)] obtain d r b s where
    mp: "mp = [(''sDTI'', PStr d), (''sReplace'', PStr r), (''bUseRegEx'', PBool b),
               (''sSearch'', PStr s)]"
    by blast
  with assms(2) have b: "b = False" by (simp add: mp_get_def)
  have run: "RenameObject N' M (BObj n t h p g cs) dicMod =
               (case N' r of Inl e \<Rightarrow> Inl (Host e) | Inr r' \<Rightarrow> Inr (BObj r' t h p g cs))" for N'
    using assms(1) by (simp add: RenameObject_def mp b mp_get_def)
  show ?thesis
    using run [of N] run [of "blender_name used"]
    by (auto simp: mp mp_get_def blender_name_keeps)
qed

theorem RenameObject_literal_stored_witness:
  "paramclass CRenameObjectParams
     [(''sDTI'', PStr ''/catharsys/blender/modify/object/rename:1.0''),
      (''sReplace'', PStr ''Box''), (''sSearch'', PStr ''Cube'')] =
   Inr [(''sDTI'', PStr ''/catharsys/blender/modify/object/rename:1.0''),
        (''sReplace'', PStr ''Box''), (''bUseRegEx'', PBool False), (''sSearch'', PStr ''Cube'')] \<and>
   RenameObject (blender_name [''Lamp'']) re_literal (BObj ''Cube.001'' ''MESH'' False [] False [])
     [(''sDTI'', PStr ''/catharsys/blender/modify/object/rename:1.0''),
      (''sReplace'', PStr ''Box''), (''sSearch'', PStr ''Cube'')] =
   Inr (BObj ''Box'' ''MESH'' False [] False [])"
proof -
  have h1: "paramclass CRenameObjectParams
     [(''sDTI'', PStr ''/catharsys/blender/modify/object/rename:1.0''),
      (''sReplace'', PStr ''Box''), (''sSearch'', PStr ''Cube'')] =
   Inr [(''sDTI'', PStr ''/catharsys/blender/modify/object/rename:1.0''),
        (''sReplace'', PStr ''Box''), (''bUseRegEx'', PBool False), (''sSearch'', PStr ''Cube'')]"
    by (simp add: CRenameObjectParams_def field_value_def)
  have h2: "mp_get [(''sDTI'', PStr ''/catharsys/blender/modify/object/rename:1.0''),
        (''sReplace'', PStr ''Box''), (''bUseRegEx'', PBool False), (''sSearch'', PStr ''Cube'')]
        ''bUseRegEx'' = Inr (PBool False)"
    by (simp add: mp_get_def)
  from RenameObject_literal_stored
         [OF h1 h2, where N = "blender_name [''Lamp'']" and M = re_literal
            and n = "''Cube.001''" and t = "''MESH''" and h = False and p = "[]"
            and g = False and cs = "[]" and used = "[''Lamp'']"]
  show ?thesis using h1 by (auto simp: mp_get_def)
qed

text \<open>
  Claim C4 as it is stated fails for the same reason: the result of the substitution is
  assigned through the host. Substituting \<^verbatim>\<open>A\<close> by the empty string in \<^verbatim>\<open>CubeA\<close> gives
  \<^verbatim>\<open>Cube\<close>; while another object is named \<^verbatim>\<open>Cube\<close>, the object is named \<^verbatim>\<open>Cube.001\<close>
  afterwards.
\<close>

theorem RenameObject_regex_counterexample:
  "re_sub re_literal ''A'' '''' ''CubeA'' = Some ''Cube'' \<and>
   RenameObject (blender_name [''Cube'']) re_literal
     (BObj ''CubeA'' ''MESH'' False [] False [])
     [(''sDTI'', PStr ''/catharsys/blender/modify/object/rename:1.0''),
      (''sReplace'', PStr ''''), (''bUseRegEx'', PBool True), (''sSearch'', PStr ''A'')] =
   Inr (BObj ''Cube.001'' ''MESH'' False [] False []) \<and>
   ''Cube.001'' \<noteq> ''Cube''"
  by (simp add: RenameObject_def CRenameObjectParams_def field_value_def mp_get_def
        re_sub_def re_literal_def blender_name_def strip_number_def pad3_def is_digit_def)

text \<open>
  Claim C4, amended. For every object and every accepted configuration in which
  \<^verbatim>\<open>bUseRegEx\<close> is true, \<^verbatim>\<open>RenameObject\<close> substitutes \<^verbatim>\<open>sSearch\<close> by \<^verbatim>\<open>sReplace\<close> in the old
  name \<open>n\<close> with \<^verbatim>\<open>re.sub\<close> and assigns the result to the object's name: when the pattern
  compiles and the replacement is a valid template, the string assigned is \<open>n\<close> itself if
  the pattern has no match in \<open>n\<close>, and otherwise \<open>n\<close> with every match replaced by the
  replacement with its capture groups substituted; the object is then named as the
  host's name setter stores that string. When \<^verbatim>\<open>re.sub\<close> raises, the error is passed on
  and nothing is renamed. With the host's setter the name is exactly the string assigned
  when that is not empty, at most 63 bytes long and not the name of another object.
\<close>

theorem RenameObject_regex_stored:
  assumes "paramclass CRenameObjectParams dicMod = Inr mp"
      and "mp_get mp ''bUseRegEx'' = Inr (PBool True)"
  shows "\<exists>pat repl. mp_get mp ''sSearch'' = Inr (PStr pat) \<and>
           mp_get mp ''sReplace'' = Inr (PStr repl) \<and>
           RenameObject N M (BObj n t h p g cs) dicMod =
             (case re_finditer M pat n of
                None \<Rightarrow> Inl ReError
              | Some ms \<Rightarrow>
                  if \<not> re_template_ok M pat repl then Inl ReError
                  else
                    (case N (if ms = [] then n else splice (re_expand M repl) n 0 ms) of
                       Inl e \<Rightarrow> Inl (Host e)
                     | Inr s' \<Rightarrow> Inr (BObj s' t h p g cs))) \<and>
           (\<forall>ms r. re_finditer M pat n = Some ms \<and> re_template_ok M pat repl \<and>
                   r = (if ms = [] then n else splice (re_expand M repl) n 0 ms) \<and>
                   r \<noteq> [] \<and> length r \<le> 63 \<and> r \<notin> set used \<longrightarrow>
                RenameObject (blender_name used) M (BObj n t h p g cs) dicMod =
                  Inr (BObj r t h p g cs))"
proof -
  from CRenameObjectParams_instance [OF assms(1)] obtain d r b s where
    mp: "mp = [(''sDTI'', PStr d), (''sReplace'', PStr r), (''bUseRegEx'', PBool b),
               (''sSearch'', PStr s)]"
    by blast
  with assms(2) have b: "b = True" by (simp add: mp_get_def)
  have run: "RenameObject N' M (BObj n t h p g cs) dicMod =
             (case re_finditer M s n of
                None \<Rightarrow> Inl ReError
              | Some ms \<Rightarrow>
                  if \<not> re_template_ok M s r then Inl ReError
                  else
                    (case N' (if ms = [] then n else splice (re_expand M r) n 0 ms) of
                       Inl e \<Rightarrow> Inl (Host e)
                     | Inr s' \<Rightarrow> Inr (BObj s' t h p g cs)))" for N'
    using assms(1)
    by (simp add: RenameObject_def mp b mp_get_def re_sub_def split: option.splits sum.splits)
  show ?thesis
    using run [of N] run [of "blender_name used"]
    by (auto simp: mp mp_get_def blender_name_keeps)
qed

theorem RenameObject_regex_stored_witness:
  "paramclass CRenameObjectParams
     [(''sDTI'', PStr ''/catharsys/blender/modify/object/rename:1.0''),
      (''sReplace'', PStr ''Box''), (''bUseRegEx'', PBool True), (''sSearch'', PStr ''Cube'')] =
   Inr [(''sDTI'', PStr ''/catharsys/blender/modify/object/rename:1.0''),
        (''sReplace'', PStr ''Box''), (''bUseRegEx'', PBool True), (''sSearch'', PStr ''Cube'')] \<and>
   RenameObject (blender_name [''Lamp'']) re_literal (BObj ''Cube.001'' ''MESH'' False [] False [])
     [(''sDTI'', PStr ''/catharsys/blender/modify/object/rename:1.0''),
      (''sReplace'', PStr ''Box''), (''bUseRegEx'', PBool True), (''sSearch'', PStr ''Cube'')] =
   Inr (BObj ''Box.001'' ''MESH'' False [] False [])"
proof -
  have h1: "paramclass CRenameObjectParams
     [(''sDTI'', PStr ''/catharsys/blender/modify/object/rename:1.0''),
      (''sReplace'', PStr ''Box''), (''bUseRegEx'', PBool True), (''sSearch'', PStr ''Cube'')] =
   Inr [(''sDTI'', PStr ''/catharsys/blender/modify/object/rename:1.0''),
        (''sReplace'', PStr ''Box''), (''bUseRegEx'', PBool True), (''sSearch'', PStr ''Cube'')]"
    by (simp add: CRenameObjectParams_def field_value_def)
  have h2: "mp_get [(''sDTI'', PStr ''/catharsys/blender/modify/object/rename:1.0''),
        (''sReplace'', PStr ''Box''), (''bUseRegEx'', PBool True), (''sSearch'', PStr ''Cube'')]
        ''bUseRegEx'' = Inr (PBool True)"
    by (simp add: mp_get_def)
  from RenameObject_regex_stored
         [OF h1 h2, where N = "blender_name [''Lamp'']" and M = re_literal
            and n = "''Cube.001''" and t = "''MESH''" and h = False and p = "[]"
            and g = False and cs = "[]" and used = "[''Lamp'']"]
  show ?thesis using h1 by (auto simp: mp_get_def re_literal_def blender_name_def)
qed

text \<open>
  Claim C10. \<^verbatim>\<open>RenameObject\<close> never raises "Element 'sSearch' not given in object rename
  modifier", for any host, matcher, object and configuration: the field \<^verbatim>\<open>sSearch\<close> of an
  accepted configuration is a string, the empty string when the configuration does not
  give it. With \<^verbatim>\<open>bUseRegEx\<close> true and \<^verbatim>\<open>sSearch\<close> absent the function substitutes with
  the empty pattern.
\<close>

theorem RenameObject_sSearch_branch_dead:
  "RenameObject N M objX dicMod \<noteq> Inl SearchNotGiven \<and>
   (\<forall>mp. paramclass CRenameObjectParams dicMod = Inr mp \<and>
         mp_get mp ''bUseRegEx'' = Inr (PBool True) \<and> map_of dicMod ''sSearch'' = None \<longrightarrow>
      (\<exists>repl. mp_get mp ''sReplace'' = Inr (PStr repl) \<and>
         RenameObject N M objX dicMod =
           (case re_sub M '''' repl (name objX) of
              None \<Rightarrow> Inl ReError
            | Some s \<Rightarrow> set_name N objX (PStr s))))"
proof (intro conjI allI impI)
  show "RenameObject N M objX dicMod \<noteq> Inl SearchNotGiven"
  proof (cases "paramclass CRenameObjectParams dicMod")
    case (Inl e)
    then show ?thesis
      using paramclass_error [OF Inl] by (auto simp: RenameObject_def)
  next
    case (Inr mp)
    from CRenameObjectParams_instance [OF Inr] obtain d r b s where
      mp: "mp = [(''sDTI'', PStr d), (''sReplace'', PStr r), (''bUseRegEx'', PBool b),
                 (''sSearch'', PStr s)]"
      by blast
    show ?thesis
      by (cases objX)
         (simp add: RenameObject_def Inr mp mp_get_def split: option.splits sum.splits)
  qed
next
  fix mp
  assume a: "paramclass CRenameObjectParams dicMod = Inr mp \<and>
         mp_get mp ''bUseRegEx'' = Inr (PBool True) \<and> map_of dicMod ''sSearch'' = None"
  from CRenameObjectParams_instance [of dicMod mp] a obtain d r b s where
    mp: "mp = [(''sDTI'', PStr d), (''sReplace'', PStr r), (''bUseRegEx'', PBool b),
               (''sSearch'', PStr s)]"
    by blast
  from a mp have b: "b = True" by (simp add: mp_get_def)
  have "field_value (Field ''sSearch'' TStr (DEFAULT (PStr '''')) None) dicMod = Inr (PStr '''')"
    using a by (simp add: field_value_default)
  with a mp have s: "s = ''''"
    by (auto simp: CRenameObjectParams_def split: sum.splits)
  show "\<exists>repl. mp_get mp ''sReplace'' = Inr (PStr repl) \<and>
         RenameObject N M objX dicMod =
           (case re_sub M '''' repl (name objX) of
              None \<Rightarrow> Inl ReError
            | Some s \<Rightarrow> set_name N objX (PStr s))"
    using a by (simp add: RenameObject_def mp b s mp_get_def split: option.splits)
qed

theorem RenameObject_sSearch_branch_dead_witness:
  "paramclass CRenameObjectParams
     [(''sDTI'', PStr ''/catharsys/blender/modify/object/rename:1.0''),
      (''sReplace'', PStr ''-''), (''bUseRegEx'', PBool True)] =
   Inr [(''sDTI'', PStr ''/catharsys/blender/modify/object/rename:1.0''),
        (''sReplace'', PStr ''-''), (''bUseRegEx'', PBool True), (''sSearch'', PStr '''')] \<and>
   RenameObject (blender_name []) re_literal (BObj ''ab'' ''MESH'' False [] False [])
     [(''sDTI'', PStr ''/catharsys/blender/modify/object/rename:1.0''),
      (''sReplace'', PStr ''-''), (''bUseRegEx'', PBool True)] =
   Inr (BObj ''-a-b-'' ''MESH'' False [] False [])"
proof -
  have h1: "paramclass CRenameObjectParams
     [(''sDTI'', PStr ''/catharsys/blender/modify/object/rename:1.0''),
      (''sReplace'', PStr ''-''), (''bUseRegEx'', PBool True)] =
   Inr [(''sDTI'', PStr ''/catharsys/blender/modify/object/rename:1.0''),
        (''sReplace'', PStr ''-''), (''bUseRegEx'', PBool True), (''sSearch'', PStr '''')]"
    by (simp add: CRenameObjectParams_def field_value_def)
  from RenameObject_sSearch_branch_dead
         [of "blender_name []" re_literal "BObj ''ab'' ''MESH'' False [] False []"
             "[(''sDTI'', PStr ''/catharsys/blender/modify/object/rename:1.0''),
               (''sReplace'', PStr ''-''), (''bUseRegEx'', PBool True)]"]
  show ?thesis using h1 by (simp add: mp_get_def re_sub_def re_literal_def blender_name_def)
qed

section \<open>Enable: recursive render visibility\<close>

lemma EnableRender_fields:
  "same_fields ob (EnableRender ob b r) \<and> hide_render (EnableRender ob b r) = (\<not> truthy b)"
  by (cases ob) (simp add: same_fields_def)

lemma EnableRender_children:
  "children (EnableRender ob b True) = map (\<lambda>c. EnableRender c b True) (children ob)"
  by (cases ob) simp

lemma forest_enable:
  "case scene_at q obs of
     None \<Rightarrow> scene_at q (map (\<lambda>c. EnableRender c b True) obs) = None
   | Some ob \<Rightarrow>
       (\<exists>ob'. scene_at q (map (\<lambda>c. EnableRender c b True) obs) = Some ob' \<and>
              same_fields ob ob' \<and> hide_render ob' = (\<not> truthy b))"
proof (induction q arbitrary: obs)
  case Nil
  then show ?case by simp
next
  case (Cons i q)
  show ?case
  proof (cases "i < length obs")
    case False
    then show ?thesis by simp
  next
    case True
    show ?thesis
    proof (cases "q = []")
      case True
      with \<open>i < length obs\<close> show ?thesis
        by (simp add: EnableRender_fields)
    next
      case False
      with \<open>i < length obs\<close> Cons.IH [where obs = "children (obs ! i)"] show ?thesis
        by (auto simp: EnableRender_children split: option.splits)
    qed
  qed
qed

lemma length_scene_put: "length (scene_put p x obs) = length obs"
  by (cases p) auto

lemma set_children_fields:
  "length cs = length (children ob) \<Longrightarrow>
     same_fields ob (set_children ob cs) \<and> hide_render (set_children ob cs) = hide_render ob"
  by (cases ob) (simp add: same_fields_def)

lemma children_set_children: "children (set_children ob cs) = cs"
  by (cases ob) simp

lemma same_fields_refl: "same_fields ob ob"
  by (simp add: same_fields_def)

lemma scene_enable_frame:
  assumes "scene_at p obs = Some x"
  shows "case scene_at q obs of
     None \<Rightarrow> scene_at q (scene_put p (EnableRender x b True) obs) = None
   | Some ob \<Rightarrow>
       (\<exists>ob'. scene_at q (scene_put p (EnableRender x b True) obs) = Some ob' \<and>
              same_fields ob ob' \<and>
              hide_render ob' = (if prefix p q then \<not> truthy b else hide_render ob))"
  using assms
proof (induction p arbitrary: q obs)
  case Nil
  then show ?case by simp
next
  case (Cons i p)
  from Cons.prems have i: "i < length obs"
    by (simp split: if_splits)
  show ?case
  proof (cases q)
    case Nil
    then show ?thesis by simp
  next
    case (Cons j q')
    show ?thesis
    proof (cases "j = i")
      case False
      then show ?thesis
        using Cons i
        by (auto simp: length_scene_put same_fields_refl nth_list_update split: option.splits)
    next
      case True
      show ?thesis
      proof (cases "p = []")
        case pe: True
        with Cons.prems i have x: "x = obs ! i" by simp
        show ?thesis
        proof (cases "q' = []")
          case True
          then show ?thesis
            using Cons \<open>j = i\<close> i pe x by (simp add: EnableRender_fields)
        next
          case False
          then show ?thesis
            using Cons \<open>j = i\<close> i pe x forest_enable [where q = q' and obs = "children (obs ! i)" and b = b]
            by (auto simp: EnableRender_children split: option.splits)
        qed
      next
        case pne: False
        with Cons.prems i have sub: "scene_at p (children (obs ! i)) = Some x" by simp
        show ?thesis
        proof (cases "q' = []")
          case True
          then show ?thesis
            using Cons \<open>j = i\<close> i pne
            by (simp add: set_children_fields length_scene_put)
        next
          case False
          then show ?thesis
            using Cons \<open>j = i\<close> i pne Cons.IH [OF sub, of q']
            by (auto simp: children_set_children split: option.splits)
        qed
      qed
    qed
  qed
qed

text \<open>
  Claim C8. Let \<^verbatim>\<open>Enable\<close> run in the host on an accepted configuration with the boolean
  \<^verbatim>\<open>xValue\<close>, for the object at position \<open>p\<close> of the scene. It returns without error,
  and in the scene that holds the mutated object every position \<open>q\<close> that held an object
  still holds one: with \<^verbatim>\<open>hide_render\<close> equal to the negation of \<^verbatim>\<open>xValue\<close> when \<open>q\<close> is the
  object itself or one of its descendants (\<open>p\<close> is a prefix of \<open>q\<close>), with
  \<^verbatim>\<open>hide_render\<close> as before otherwise, and in both cases with its name, type, custom
  properties, update tag and number of children unchanged. No object appears or
  disappears.
\<close>

theorem Enable_frame:
  assumes "g_bInBlenderContext ctx"
      and "AssertConfigType ctx dicMod ''/catharsys/blender/modify/object/enable:1.0''"
      and "paramclass CEnableParams dicMod = Inr mp"
      and "mp_get mp ''xValue'' = Inr (PBool xValue)"
      and "scene_at p scene = Some objX"
  shows "\<exists>objX'. Enable ctx objX dicMod = Inr objX' \<and>
           (\<forall>q. case scene_at q scene of
                  None \<Rightarrow> scene_at q (scene_put p objX' scene) = None
                | Some ob \<Rightarrow>
                    (\<exists>ob'. scene_at q (scene_put p objX' scene) = Some ob' \<and>
                       same_fields ob ob' \<and>
                       hide_render ob' = (if prefix p q then \<not> xValue else hide_render ob)))"
proof -
  have "Enable ctx objX dicMod = Inr (EnableRender objX (PBool xValue) True)"
    using assms by (simp add: Enable_def)
  moreover have "\<forall>q. case scene_at q scene of
                  None \<Rightarrow> scene_at q (scene_put p (EnableRender objX (PBool xValue) True) scene) = None
                | Some ob \<Rightarrow>
                    (\<exists>ob'. scene_at q (scene_put p (EnableRender objX (PBool xValue) True) scene) = Some ob' \<and>
                       same_fields ob ob' \<and>
                       hide_render ob' = (if prefix p q then \<not> xValue else hide_render ob))"
  proof
    fix q
    show "case scene_at q scene of
                  None \<Rightarrow> scene_at q (scene_put p (EnableRender objX (PBool xValue) True) scene) = None
                | Some ob \<Rightarrow>
                    (\<exists>ob'. scene_at q (scene_put p (EnableRender objX (PBool xValue) True) scene) = Some ob' \<and>
                       same_fields ob ob' \<and>
                       hide_render ob' = (if prefix p q then \<not> xValue else hide_render ob))"
      using scene_enable_frame [OF assms(5), where q = q and b = "PBool xValue"]
      by (cases "scene_at q scene") (auto split: if_splits)
  qed
  ultimately show ?thesis by blast
qed


theorem Enable_frame_witness:
  "g_bInBlenderContext
     \<lparr>g_bInBlenderContext = True,
      AssertConfigType = (\<lambda>d t. map_of d ''sDTI'' = Some (PStr t))\<rparr> \<and>
   AssertConfigType
     \<lparr>g_bInBlenderContext = True,
      AssertConfigType = (\<lambda>d t. map_of d ''sDTI'' = Some (PStr t))\<rparr>
     [(''sDTI'', PStr ''/catharsys/blender/modify/object/enable:1.0''), (''xValue'', PBool False)]
     ''/catharsys/blender/modify/object/enable:1.0'' \<and>
   paramclass CEnableParams
     [(''sDTI'', PStr ''/catharsys/blender/modify/object/enable:1.0''), (''xValue'', PBool False)] =
     Inr [(''sDTI'', PStr ''/catharsys/blender/modify/object/enable:1.0''), (''xValue'', PBool False)] \<and>
   mp_get [(''sDTI'', PStr ''/catharsys/blender/modify/object/enable:1.0''), (''xValue'', PBool False)]
     ''xValue'' = Inr (PBool False) \<and>
   scene_at [0]
     [BObj ''Car'' ''EMPTY'' False [] False [BObj ''Wheel'' ''MESH'' False [] False []],
      BObj ''Lamp'' ''LIGHT'' False [] False []] =
     Some (BObj ''Car'' ''EMPTY'' False [] False [BObj ''Wheel'' ''MESH'' False [] False []]) \<and>
   (\<exists>objX'.
      Enable
        \<lparr>g_bInBlenderContext = True,
         AssertConfigType = (\<lambda>d t. map_of d ''sDTI'' = Some (PStr t))\<rparr>
        (BObj ''Car'' ''EMPTY'' False [] False [BObj ''Wheel'' ''MESH'' False [] False []])
        [(''sDTI'', PStr ''/catharsys/blender/modify/object/enable:1.0''), (''xValue'', PBool False)] =
        Inr objX' \<and>
      (\<forall>q. case scene_at q
                  [BObj ''Car'' ''EMPTY'' False [] False [BObj ''Wheel'' ''MESH'' False [] False []],
                   BObj ''Lamp'' ''LIGHT'' False [] False []] of
             None \<Rightarrow>
               scene_at q (scene_put [0] objX'
                  [BObj ''Car'' ''EMPTY'' False [] False [BObj ''Wheel'' ''MESH'' False [] False []],
                   BObj ''Lamp'' ''LIGHT'' False [] False []]) = None
           | Some ob \<Rightarrow>
               (\<exists>ob'. scene_at q (scene_put [0] objX'
                  [BObj ''Car'' ''EMPTY'' False [] False [BObj ''Wheel'' ''MESH'' False [] False []],
                   BObj ''Lamp'' ''LIGHT'' False [] False []]) = Some ob' \<and>
                  same_fields ob ob' \<and>
                  hide_render ob' = (if prefix [0] q then \<not> False else hide_render ob))))"
proof -
  have h1: "g_bInBlenderContext
     \<lparr>g_bInBlenderContext = True,
      AssertConfigType = (\<lambda>d t. map_of d ''sDTI'' = Some (PStr t))\<rparr>"
    by simp
  have h2: "AssertConfigType
     \<lparr>g_bInBlenderContext = True,
      AssertConfigType = (\<lambda>d t. map_of d ''sDTI'' = Some (PStr t))\<rparr>
     [(''sDTI'', PStr ''/catharsys/blender/modify/object/enable:1.0''), (''xValue'', PBool False)]
     ''/catharsys/blender/modify/object/enable:1.0''"
    by simp
  have h3: "paramclass CEnableParams
     [(''sDTI'', PStr ''/catharsys/blender/modify/object/enable:1.0''), (''xValue'', PBool False)] =
     Inr [(''sDTI'', PStr ''/catharsys/blender/modify/object/enable:1.0''), (''xValue'', PBool False)]"
    by (simp add: CEnableParams_def field_value_def)
  have h4: "mp_get [(''sDTI'', PStr ''/catharsys/blender/modify/object/enable:1.0''), (''xValue'', PBool False)]
     ''xValue'' = Inr (PBool False)"
    by (simp add: mp_get_def)
  have h5: "scene_at [0]
     [BObj ''Car'' ''EMPTY'' False [] False [BObj ''Wheel'' ''MESH'' False [] False []],
      BObj ''Lamp'' ''LIGHT'' False [] False []] =
     Some (BObj ''Car'' ''EMPTY'' False [] False [BObj ''Wheel'' ''MESH'' False [] False []])"
    by simp
  show ?thesis
    by (intro conjI h1 h2 h3 h4 h5 Enable_frame [OF h1 h2 h3 h4 h5])
qed

section \<open>ModifyProperties: the values are never reached\<close>

text \<open>
  The loop of \<^verbatim>\<open>ModifyProperties\<close> does what its messages say: an unknown key raises,
  an \<^verbatim>\<open>int\<close>, \<^verbatim>\<open>float\<close> or \<^verbatim>\<open>str\<close> value is assigned by the host, any other value
  raises.
\<close>

lemma ModifyProperties_loop_item:
  "ModifyProperties_loop T A objX ((PStr k, v) # items) =
     (if map_of (props objX) k = None then (Some (PropertyNotFound k (name objX)), objX)
      else if isinstance_int v \<or> isinstance_float v \<or> isinstance_str v
      then (case A objX k v of
              Inl e \<Rightarrow> (Some (Host e), objX)
            | Inr objX' \<Rightarrow> ModifyProperties_loop T A objX' items)
      else (Some (UnsupportedType k (T v)), objX))"
  by simp

text \<open>
  But the function never enters the loop. An instance of \<^verbatim>\<open>CModifyPropertiesParams\<close> has
  the attributes \<^verbatim>\<open>sDTI\<close> and \<^verbatim>\<open>mValues\<close>, so reading \<^verbatim>\<open>mp.dicValues\<close> raises: for every
  configuration the function ends with an error and the object as it was.
\<close>

lemma ModifyProperties_always_raises:
  "\<exists>e. ModifyProperties T A ctx objX dicMod = (Some e, objX)"
proof (cases "paramclass CModifyPropertiesParams dicMod")
  case (Inl e)
  then show ?thesis by (simp add: ModifyProperties_def)
next
  case (Inr mp)
  from paramclass_names [OF Inr] have "map fst mp = [''sDTI'', ''mValues'']"
    by (simp add: CModifyPropertiesParams_def)
  then have "''dicValues'' \<notin> set (map fst mp)"
    by simp
  then have "map_of mp ''dicValues'' = None"
    by (simp add: map_of_eq_None_iff)
  then show ?thesis
    using Inr by (simp add: ModifyProperties_def mp_get_def)
qed

text \<open>
  Claim C1, at a configuration that asks to set the existing custom property \<^verbatim>\<open>speed\<close> to
  the integer 3: the claim has the value assigned; the function raises
  \<^verbatim>\<open>AttributeError\<close> for \<^verbatim>\<open>dicValues\<close> and \<^verbatim>\<open>speed\<close> keeps the value 1. The sibling
  \<^verbatim>\<open>ModifyAttributes\<close> reads \<^verbatim>\<open>mp.mValues\<close>.
\<close>

theorem ModifyProperties_reads_undeclared_field:
  "ModifyProperties T A
     \<lparr>g_bInBlenderContext = True, AssertConfigType = (\<lambda>d t. True)\<rparr>
     (BObj ''Cube'' ''MESH'' False [(''speed'', PInt 1)] False [])
     [(''sDTI'', PStr ''/catharsys/blender/modify/object/properties:1.0''),
      (''mValues'', PDict [(PStr ''speed'', PInt 3)])] =
   (Some (AttributeError ''dicValues''),
    BObj ''Cube'' ''MESH'' False [(''speed'', PInt 1)] False [])"
  by (simp add: ModifyProperties_def CModifyPropertiesParams_def field_value_def mp_get_def)

section \<open>ModifyAttributes: dotted-path assignment\<close>

lemma str_split_nonempty: "str_split sep s \<noteq> []"
  by (induction s) (auto split: list.splits)

lemma find_upt_Suc:
  "List.find P [0..<Suc m] =
     (if P 0 then Some 0 else map_option Suc (List.find (\<lambda>i. P (Suc i)) [0..<m]))"
proof -
  have "[0..<Suc m] = 0 # map Suc [0..<m]"
    by (simp add: upt_conv_Cons map_Suc_upt del: upt_Suc)
  moreover have "List.find P (map Suc xs) = map_option Suc (List.find (\<lambda>i. P (Suc i)) xs)" for xs
    by (induction xs) auto
  ultimately show ?thesis by simp
qed

text \<open>The inner loop, started at index \<open>iIdx\<close> with \<open>rest\<close> still to walk: it stops at the
  first segment of \<open>rest\<close> that is absent, and otherwise reaches the object before the
  last segment.\<close>

lemma walk_char:
  "n = iIdx + length rest \<Longrightarrow>
   walk H s objY lPath n iIdx rest =
     (case List.find (\<lambda>i. \<not> hasattr H s (foldl (getattr H s) objY (take i rest)) (rest ! i))
             [0..<length rest] of
        Some i \<Rightarrow> Inl (NoAttribute (str_join ''.'' (lPath @ take i rest)) (rest ! i))
      | None \<Rightarrow>
          (if rest = [] then Inr (objY, None)
           else Inr (foldl (getattr H s) objY (butlast rest), Some (last rest))))"
proof (induction rest arbitrary: objY lPath iIdx)
  case Nil
  then show ?case by simp
next
  case (Cons k rest)
  show ?case
  proof (cases "hasattr H s objY k")
    case False
    then show ?thesis
      by (simp add: find_upt_Suc del: upt_Suc)
  next
    case True
    show ?thesis
    proof (cases "rest = []")
      case True
      with \<open>hasattr H s objY k\<close> Cons.prems show ?thesis
        by simp
    next
      case False
      with Cons.prems have "\<not> int iIdx \<ge> int n - 1"
        by (cases rest) auto
      moreover from Cons.prems have "n = Suc iIdx + length rest" by simp
      note Cons.IH [OF this, of "getattr H s objY k" "lPath @ [k]"]
      ultimately show ?thesis
        using True False
        by (simp add: find_upt_Suc del: upt_Suc split: option.splits)
    qed
  qed
qed

text \<open>The body of the loop for one item with a string key is the dotted-path assignment
  of the specification.\<close>

lemma ModifyAttributes_item_refines:
  "ModifyAttributes_item H s objX (PStr sKey) xValue = dotted_assign_spec H s objX sKey xValue"
proof -
  have ne: "str_split CHR ''.'' sKey \<noteq> []" by (rule str_split_nonempty)
  show ?thesis
    using ne
    by (simp add: ModifyAttributes_item_def dotted_assign_spec_def first_missing_def Let_def
          walk_char split: option.splits)
qed

lemma ModifyAttributes_item_not_str:
  "\<not> isinstance_str k \<Longrightarrow> ModifyAttributes_item H s objX k v = (Some (InvalidKeyType k), s)"
  by (cases k) (simp_all add: ModifyAttributes_item_def)

lemma ModifyAttributes_loop_refines:
  "ModifyAttributes_loop H s objX items = dotted_assign_items H s objX items"
proof (induction items arbitrary: s)
  case Nil
  then show ?case by simp
next
  case (Cons x items)
  obtain k v where x: "x = (k, v)" by (cases x)
  show ?case
  proof (cases k)
    case (PStr sKey)
    with x Cons.IH show ?thesis
      by (simp add: ModifyAttributes_item_refines split: prod.splits option.splits)
  qed (use x in \<open>simp_all add: ModifyAttributes_item_def\<close>)
qed

text \<open>On an accepted configuration, in the host, the function runs its loop over the
  items of \<^verbatim>\<open>mValues\<close>, from the state and for the object it was given.\<close>

lemma ModifyAttributes_runs_loop:
  assumes "g_bInBlenderContext ctx"
      and "paramclass CModifyAttributesParams dicMod = Inr mp"
  shows "\<exists>items. mp_get mp ''mValues'' = Inr (PDict items) \<and>
           ModifyAttributes H ctx s objX dicMod = ModifyAttributes_loop H s objX items"
proof -
  from CModifyAttributesParams_instance [OF assms(2)] obtain d items where
    mp: "mp = [(''sDTI'', PStr d), (''mValues'', PDict items)]"
    by blast
  show ?thesis
    using assms by (simp add: ModifyAttributes_def mp mp_get_def)
qed

text \<open>
  Claim C2. On a configuration the parameter class accepts, in the host,
  \<^verbatim>\<open>ModifyAttributes\<close> does the dotted-path assignment of the specification for every key
  of the values map \<^verbatim>\<open>mValues\<close>, in the order of the map, each on the state the keys
  before it left: the key is split on "."; the first segment that is absent on the
  object reached so far raises "Object '<name and the segments walked, joined by dots>'
  has no attribute '<segment>'" and nothing is assigned; otherwise the last segment is
  assigned on the object reached through the others, and a failure of that assignment
  raises "Could not set attribute '<whole key>' of object '<name>' to value: <value>".
  The first error ends the function.
\<close>

theorem ModifyAttributes_dotted:
  assumes "g_bInBlenderContext ctx"
      and "paramclass CModifyAttributesParams dicMod = Inr mp"
  shows "\<exists>items. mp_get mp ''mValues'' = Inr (PDict items) \<and>
           ModifyAttributes H ctx s objX dicMod = dotted_assign_items H s objX items"
  using ModifyAttributes_runs_loop [OF assms, of H s objX]
  by (simp add: ModifyAttributes_loop_refines)

text \<open>An object \<^verbatim>\<open>Cube\<close> with the attributes \<^verbatim>\<open>scale\<close>, \<^verbatim>\<open>data\<close> and \<^verbatim>\<open>data.name\<close>: the map
  sets \<^verbatim>\<open>data.name\<close> and then fails at \<^verbatim>\<open>materials\<close> of \<^verbatim>\<open>data.materials.x\<close>, after
  \<^verbatim>\<open>Cube.data\<close>; \<^verbatim>\<open>scale\<close>, the third key, is not reached.\<close>

theorem ModifyAttributes_dotted_witness:
  "g_bInBlenderContext \<lparr>g_bInBlenderContext = True, AssertConfigType = (\<lambda>d t. True)\<rparr> \<and>
   paramclass CModifyAttributesParams
     [(''sDTI'', PStr ''/catharsys/blender/modify/object/attributes:1.0''),
      (''mValues'', PDict [(PStr ''data.name'', PStr ''Box''),
                          (PStr ''data.materials.x'', PInt 1),
                          (PStr ''scale'', PInt 2)])] =
   Inr [(''sDTI'', PStr ''/catharsys/blender/modify/object/attributes:1.0''),
        (''mValues'', PDict [(PStr ''data.name'', PStr ''Box''),
                            (PStr ''data.materials.x'', PInt 1),
                            (PStr ''scale'', PInt 2)])] \<and>
   ModifyAttributes flat_host
     \<lparr>g_bInBlenderContext = True, AssertConfigType = (\<lambda>d t. True)\<rparr>
     [([''name''], PStr ''Cube''), ([''scale''], PInt 1), ([''data''], POpaque 1),
      ([''data'', ''name''], PStr ''Mesh'')]
     []
     [(''sDTI'', PStr ''/catharsys/blender/modify/object/attributes:1.0''),
      (''mValues'', PDict [(PStr ''data.name'', PStr ''Box''),
                          (PStr ''data.materials.x'', PInt 1),
                          (PStr ''scale'', PInt 2)])] =
   (Some (NoAttribute ''Cube.data'' ''materials''),
    [([''name''], PStr ''Cube''), ([''scale''], PInt 1), ([''data''], POpaque 1),
     ([''data'', ''name''], PStr ''Box'')])"
proof -
  have h1: "g_bInBlenderContext \<lparr>g_bInBlenderContext = True, AssertConfigType = (\<lambda>d t. True)\<rparr>"
    by simp
  have h2: "paramclass CModifyAttributesParams
     [(''sDTI'', PStr ''/catharsys/blender/modify/object/attributes:1.0''),
      (''mValues'', PDict [(PStr ''data.name'', PStr ''Box''),
                          (PStr ''data.materials.x'', PInt 1),
                          (PStr ''scale'', PInt 2)])] =
   Inr [(''sDTI'', PStr ''/catharsys/blender/modify/object/attributes:1.0''),
        (''mValues'', PDict [(PStr ''data.name'', PStr ''Box''),
                            (PStr ''data.materials.x'', PInt 1),
                            (PStr ''scale'', PInt 2)])]"
    by (simp add: CModifyAttributesParams_def field_value_def)
  from ModifyAttributes_dotted
         [OF h1 h2, of flat_host
            "[([''name''], PStr ''Cube''), ([''scale''], PInt 1), ([''data''], POpaque 1),
              ([''data'', ''name''], PStr ''Mesh'')]" "[]"]
  have "ModifyAttributes flat_host
     \<lparr>g_bInBlenderContext = True, AssertConfigType = (\<lambda>d t. True)\<rparr>
     [([''name''], PStr ''Cube''), ([''scale''], PInt 1), ([''data''], POpaque 1),
      ([''data'', ''name''], PStr ''Mesh'')]
     []
     [(''sDTI'', PStr ''/catharsys/blender/modify/object/attributes:1.0''),
      (''mValues'', PDict [(PStr ''data.name'', PStr ''Box''),
                          (PStr ''data.materials.x'', PInt 1),
                          (PStr ''scale'', PInt 2)])] =
   (Some (NoAttribute ''Cube.data'' ''materials''),
    [([''name''], PStr ''Cube''), ([''scale''], PInt 1), ([''data''], POpaque 1),
     ([''data'', ''name''], PStr ''Box'')])"
    by (auto simp: mp_get_def dotted_assign_spec_def first_missing_def flat_host_def Let_def)
  then show ?thesis
    by (intro conjI h1 h2)
qed

section \<open>The modifiers apply a prefix of their edits\<close>

lemma ModifyProperties_loop_prefix:
  "ModifyProperties_loop T A objX items = (Some e, objX') \<Longrightarrow>
     \<exists>i<length items.
        ModifyProperties_loop T A objX (take i items) = (None, objX') \<and>
        ModifyProperties_loop T A objX' [items ! i] = (Some e, objX')"
proof (induction items arbitrary: objX)
  case Nil
  then show ?case by simp
next
  case (Cons x items)
  obtain sKey xValue where x: "x = (sKey, xValue)" by (cases x)
  show ?case
  proof (cases "ModifyProperties_loop T A objX [x]")
    case (Pair r ob1)
    show ?thesis
    proof (cases r)
      case (Some e1)
      with Pair Cons.prems x have "e1 = e \<and> objX' = objX \<and> ob1 = objX"
        by (auto split: pyval.splits if_splits sum.splits)
      with Pair Some show ?thesis
        by (intro exI [of _ 0]) simp
    next
      case None
      with Pair x have pre: "\<And>ys. ModifyProperties_loop T A objX (x # ys) = ModifyProperties_loop T A ob1 ys"
        by (auto split: pyval.splits if_splits sum.splits)
      from Cons.prems pre have "ModifyProperties_loop T A ob1 items = (Some e, objX')" by simp
      from Cons.IH [OF this] obtain i where i: "i < length items"
        "ModifyProperties_loop T A ob1 (take i items) = (None, objX')"
        "ModifyProperties_loop T A objX' [items ! i] = (Some e, objX')"
        by blast
      show ?thesis
        using i pre by (intro exI [of _ "Suc i"]) simp
    qed
  qed
qed

lemma ModifyAttributes_loop_prefix:
  "ModifyAttributes_loop H s objX items = (Some e, s') \<Longrightarrow>
     \<exists>i<length items.
        ModifyAttributes_loop H s objX (take i items) = (None, s') \<and>
        ModifyAttributes_loop H s' objX [items ! i] = (Some e, s')"
proof (induction items arbitrary: s)
  case Nil
  then show ?case by simp
next
  case (Cons x items)
  obtain sKey xValue where x: "x = (sKey, xValue)" by (cases x)
  show ?case
  proof (cases "ModifyAttributes_item H s objX sKey xValue")
    case (Pair r s1)
    show ?thesis
    proof (cases r)
      case (Some e1)
      have unchanged: "s1 = s"
        using Pair Some
        by (auto simp: ModifyAttributes_item_def Let_def
                 split: pyval.splits sum.splits option.splits prod.splits)
      with Pair Some Cons.prems x have "e1 = e \<and> s' = s" by simp
      with Pair Some unchanged x show ?thesis
        by (intro exI [of _ 0]) simp
    next
      case None
      with Pair x Cons.prems have "ModifyAttributes_loop H s1 objX items = (Some e, s')" by simp
      from Cons.IH [OF this] obtain i where i: "i < length items"
        "ModifyAttributes_loop H s1 objX (take i items) = (None, s')"
        "ModifyAttributes_loop H s' objX [items ! i] = (Some e, s')"
        by blast
      show ?thesis
        using i Pair None x by (intro exI [of _ "Suc i"]) simp
    qed
  qed
qed

text \<open>Putting another values map in front of a configuration: the parameter class reads
  the first entry of a name, so the configuration is accepted as before and
  \<^verbatim>\<open>ModifyAttributes\<close> runs its loop over the new map.\<close>

lemma field_value_Cons_other:
  "fname f \<noteq> k \<Longrightarrow> fdeprecated f \<noteq> Some k \<Longrightarrow> field_value f ((k, v) # dic) = field_value f dic"
  by (cases "fdeprecated f") (auto simp: field_value_def split: option.splits)

lemma ModifyAttributes_on_map:
  assumes "g_bInBlenderContext ctx"
      and "paramclass CModifyAttributesParams dicMod = Inr mp"
  shows "ModifyAttributes H ctx s objX ((''mValues'', PDict xs) # dicMod) =
           ModifyAttributes_loop H s objX xs"
proof -
  from CModifyAttributesParams_instance [OF assms(2)] obtain d items where
    mp: "mp = [(''sDTI'', PStr d), (''mValues'', PDict items)]"
    by blast
  with assms(2) have
    "field_value (Field ''sDTI'' TStr REQUIRED (Some ''sType'')) dicMod = Inr (PStr d)"
    by (auto simp: CModifyAttributesParams_def split: sum.splits)
  then have
    "field_value (Field ''sDTI'' TStr REQUIRED (Some ''sType''))
       ((''mValues'', PDict xs) # dicMod) = Inr (PStr d)"
    by (simp add: field_value_Cons_other)
  moreover have
    "field_value (Field ''mValues'' TDict REQUIRED (Some ''dValues''))
       ((''mValues'', PDict xs) # dicMod) = Inr (PDict xs)"
    by (simp add: field_value_def)
  ultimately have
    "paramclass CModifyAttributesParams ((''mValues'', PDict xs) # dicMod) =
       Inr [(''sDTI'', PStr d), (''mValues'', PDict xs)]"
    by (simp add: CModifyAttributesParams_def)
  then show ?thesis
    using assms(1) by (simp add: ModifyAttributes_def mp_get_def)
qed

text \<open>
  Claim C7. (1) When \<^verbatim>\<open>ModifyAttributes\<close>, run in the host on an accepted configuration with
  the values map \<open>items\<close>, ends with an error \<open>e\<close> and the state \<open>s'\<close>, there is an item
  \<open>i\<close> such that the function run from the same state with the items before \<open>i\<close> alone
  ends without error in \<open>s'\<close>, and run from \<open>s'\<close> with item \<open>i\<close> alone it raises \<open>e\<close> and
  leaves \<open>s'\<close> as it is: what the items before \<open>i\<close> assigned stays applied, item \<open>i\<close> and
  the items after it assign nothing. (2) The loop of \<^verbatim>\<open>ModifyProperties\<close> (source lines
  258 to 275) has the same property, with the assignment of the host allowed to raise.
  (3) \<^verbatim>\<open>ModifyProperties\<close> itself raises before its loop (see claim C1): it always ends
  with an error and the object as it was, so no item is ever applied by it.
\<close>

theorem modifiers_apply_prefix:
  "(g_bInBlenderContext ctx \<and> paramclass CModifyAttributesParams dicMod = Inr mp \<and>
    mp_get mp ''mValues'' = Inr (PDict items) \<and>
    ModifyAttributes H ctx s objX dicMod = (Some e, s') \<longrightarrow>
      (\<exists>i<length items.
         ModifyAttributes H ctx s objX ((''mValues'', PDict (take i items)) # dicMod) = (None, s') \<and>
         ModifyAttributes H ctx s' objX ((''mValues'', PDict [items ! i]) # dicMod) =
           (Some e, s'))) \<and>
   (ModifyProperties_loop T A ob items' = (Some e', ob') \<longrightarrow>
      (\<exists>i<length items'.
         ModifyProperties_loop T A ob (take i items') = (None, ob') \<and>
         ModifyProperties_loop T A ob' [items' ! i] = (Some e', ob'))) \<and>
   (ModifyProperties T A ctx' ob dic = (r, ob'') \<longrightarrow> r \<noteq> None \<and> ob'' = ob)"
proof (intro conjI impI)
  assume a: "g_bInBlenderContext ctx \<and> paramclass CModifyAttributesParams dicMod = Inr mp \<and>
    mp_get mp ''mValues'' = Inr (PDict items) \<and>
    ModifyAttributes H ctx s objX dicMod = (Some e, s')"
  then have g: "g_bInBlenderContext ctx"
    and acc: "paramclass CModifyAttributesParams dicMod = Inr mp"
    and run: "ModifyAttributes H ctx s objX dicMod = (Some e, s')"
    and items: "mp_get mp ''mValues'' = Inr (PDict items)"
    by simp_all
  from ModifyAttributes_runs_loop [OF g acc, of H s objX] items run
  have "ModifyAttributes_loop H s objX items = (Some e, s')"
    by auto
  from ModifyAttributes_loop_prefix [OF this] obtain i where i: "i < length items"
    "ModifyAttributes_loop H s objX (take i items) = (None, s')"
    "ModifyAttributes_loop H s' objX [items ! i] = (Some e, s')"
    by blast
  then show "\<exists>i<length items.
         ModifyAttributes H ctx s objX ((''mValues'', PDict (take i items)) # dicMod) = (None, s') \<and>
         ModifyAttributes H ctx s' objX ((''mValues'', PDict [items ! i]) # dicMod) =
           (Some e, s')"
    by (intro exI [of _ i]) (simp add: ModifyAttributes_on_map [OF g acc])
next
  assume "ModifyProperties_loop T A ob items' = (Some e', ob')"
  then show "\<exists>i<length items'.
         ModifyProperties_loop T A ob (take i items') = (None, ob') \<and>
         ModifyProperties_loop T A ob' [items' ! i] = (Some e', ob')"
    by (rule ModifyProperties_loop_prefix)
next
  assume a: "ModifyProperties T A ctx' ob dic = (r, ob'')"
  with ModifyProperties_always_raises [of T A ctx' ob dic] show "r \<noteq> None"
    by auto
  from a ModifyProperties_always_raises [of T A ctx' ob dic] show "ob'' = ob"
    by auto
qed

text \<open>
  An object \<^verbatim>\<open>Cube\<close> with the attribute \<^verbatim>\<open>scale\<close> and no attribute \<^verbatim>\<open>data\<close>: the map
  sets \<^verbatim>\<open>scale\<close> to 2, fails at \<^verbatim>\<open>data.x\<close>, and does not reach the third item, which
  would set \<^verbatim>\<open>scale\<close> to 5; \<^verbatim>\<open>scale\<close> is left at 2. For the loop of
  \<^verbatim>\<open>ModifyProperties\<close>, with the custom properties \<^verbatim>\<open>a\<close> and \<^verbatim>\<open>b\<close>: \<^verbatim>\<open>a\<close> is set to 2,
  the host raises \<^verbatim>\<open>OverflowError\<close> for the value of \<^verbatim>\<open>b\<close>, and \<^verbatim>\<open>a\<close> is left at 2, not
  set to 7. \<^verbatim>\<open>ModifyProperties\<close> with the same map raises and leaves \<^verbatim>\<open>a\<close> at 1.
\<close>

theorem modifiers_apply_prefix_witness:
  "g_bInBlenderContext \<lparr>g_bInBlenderContext = True, AssertConfigType = (\<lambda>d t. True)\<rparr> \<and>
   paramclass CModifyAttributesParams
     [(''sDTI'', PStr ''/catharsys/blender/modify/object/attributes:1.0''),
      (''mValues'', PDict [(PStr ''scale'', PInt 2), (PStr ''data.x'', PInt 3),
                          (PStr ''scale'', PInt 5)])] =
   Inr [(''sDTI'', PStr ''/catharsys/blender/modify/object/attributes:1.0''),
        (''mValues'', PDict [(PStr ''scale'', PInt 2), (PStr ''data.x'', PInt 3),
                            (PStr ''scale'', PInt 5)])] \<and>
   mp_get [(''sDTI'', PStr ''/catharsys/blender/modify/object/attributes:1.0''),
           (''mValues'', PDict [(PStr ''scale'', PInt 2), (PStr ''data.x'', PInt 3),
                               (PStr ''scale'', PInt 5)])] ''mValues'' =
   Inr (PDict [(PStr ''scale'', PInt 2), (PStr ''data.x'', PInt 3), (PStr ''scale'', PInt 5)]) \<and>
   ModifyAttributes flat_host
     \<lparr>g_bInBlenderContext = True, AssertConfigType = (\<lambda>d t. True)\<rparr>
     [([''name''], PStr ''Cube''), ([''scale''], PInt 1)] []
     [(''sDTI'', PStr ''/catharsys/blender/modify/object/attributes:1.0''),
      (''mValues'', PDict [(PStr ''scale'', PInt 2), (PStr ''data.x'', PInt 3),
                          (PStr ''scale'', PInt 5)])] =
   (Some (NoAttribute ''Cube'' ''data''), [([''name''], PStr ''Cube''), ([''scale''], PInt 2)]) \<and>
   (\<exists>i<length [(PStr ''scale'', PInt 2), (PStr ''data.x'', PInt 3), (PStr ''scale'', PInt 5)].
      ModifyAttributes flat_host
        \<lparr>g_bInBlenderContext = True, AssertConfigType = (\<lambda>d t. True)\<rparr>
        [([''name''], PStr ''Cube''), ([''scale''], PInt 1)] []
        ((''mValues'',
          PDict (take i [(PStr ''scale'', PInt 2), (PStr ''data.x'', PInt 3),
                         (PStr ''scale'', PInt 5)])) #
         [(''sDTI'', PStr ''/catharsys/blender/modify/object/attributes:1.0''),
          (''mValues'', PDict [(PStr ''scale'', PInt 2), (PStr ''data.x'', PInt 3),
                              (PStr ''scale'', PInt 5)])]) =
      (None, [([''name''], PStr ''Cube''), ([''scale''], PInt 2)]) \<and>
      ModifyAttributes flat_host
        \<lparr>g_bInBlenderContext = True, AssertConfigType = (\<lambda>d t. True)\<rparr>
        [([''name''], PStr ''Cube''), ([''scale''], PInt 2)] []
        ((''mValues'',
          PDict [[(PStr ''scale'', PInt 2), (PStr ''data.x'', PInt 3),
                  (PStr ''scale'', PInt 5)] ! i]) #
         [(''sDTI'', PStr ''/catharsys/blender/modify/object/attributes:1.0''),
          (''mValues'', PDict [(PStr ''scale'', PInt 2), (PStr ''data.x'', PInt 3),
                              (PStr ''scale'', PInt 5)])]) =
      (Some (NoAttribute ''Cube'' ''data''),
       [([''name''], PStr ''Cube''), ([''scale''], PInt 2)])) \<and>
   ModifyProperties_loop (\<lambda>v. ''list'') idprop_assign
     (BObj ''Cube'' ''MESH'' False [(''a'', PInt 1), (''b'', PInt 1)] False [])
     [(PStr ''a'', PInt 2), (PStr ''b'', PInt 2147483648), (PStr ''a'', PInt 7)] =
   (Some (Host OverflowError),
    BObj ''Cube'' ''MESH'' False [(''a'', PInt 2), (''b'', PInt 1)] False []) \<and>
   (\<exists>i<length [(PStr ''a'', PInt 2), (PStr ''b'', PInt 2147483648), (PStr ''a'', PInt 7)].
      ModifyProperties_loop (\<lambda>v. ''list'') idprop_assign
        (BObj ''Cube'' ''MESH'' False [(''a'', PInt 1), (''b'', PInt 1)] False [])
        (take i [(PStr ''a'', PInt 2), (PStr ''b'', PInt 2147483648), (PStr ''a'', PInt 7)]) =
      (None, BObj ''Cube'' ''MESH'' False [(''a'', PInt 2), (''b'', PInt 1)] False []) \<and>
      ModifyProperties_loop (\<lambda>v. ''list'') idprop_assign
        (BObj ''Cube'' ''MESH'' False [(''a'', PInt 2), (''b'', PInt 1)] False [])
        [[(PStr ''a'', PInt 2), (PStr ''b'', PInt 2147483648), (PStr ''a'', PInt 7)] ! i] =
      (Some (Host OverflowError),
       BObj ''Cube'' ''MESH'' False [(''a'', PInt 2), (''b'', PInt 1)] False [])) \<and>
   ModifyProperties (\<lambda>v. ''list'') idprop_assign
     \<lparr>g_bInBlenderContext = True, AssertConfigType = (\<lambda>d t. True)\<rparr>
     (BObj ''Cube'' ''MESH'' False [(''a'', PInt 1), (''b'', PInt 1)] False [])
     [(''sDTI'', PStr ''/catharsys/blender/modify/object/properties:1.0''),
      (''mValues'', PDict [(PStr ''a'', PInt 2), (PStr ''b'', PInt 2147483648),
                          (PStr ''a'', PInt 7)])] =
   (Some (AttributeError ''dicValues''),
    BObj ''Cube'' ''MESH'' False [(''a'', PInt 1), (''b'', PInt 1)] False [])"
proof -
  have h1: "g_bInBlenderContext \<lparr>g_bInBlenderContext = True, AssertConfigType = (\<lambda>d t. True)\<rparr>"
    by simp
  have h2: "paramclass CModifyAttributesParams
     [(''sDTI'', PStr ''/catharsys/blender/modify/object/attributes:1.0''),
      (''mValues'', PDict [(PStr ''scale'', PInt 2), (PStr ''data.x'', PInt 3),
                          (PStr ''scale'', PInt 5)])] =
   Inr [(''sDTI'', PStr ''/catharsys/blender/modify/object/attributes:1.0''),
        (''mValues'', PDict [(PStr ''scale'', PInt 2), (PStr ''data.x'', PInt 3),
                            (PStr ''scale'', PInt 5)])]"
    by (simp add: CModifyAttributesParams_def field_value_def)
  have h3: "mp_get [(''sDTI'', PStr ''/catharsys/blender/modify/object/attributes:1.0''),
           (''mValues'', PDict [(PStr ''scale'', PInt 2), (PStr ''data.x'', PInt 3),
                               (PStr ''scale'', PInt 5)])] ''mValues'' =
   Inr (PDict [(PStr ''scale'', PInt 2), (PStr ''data.x'', PInt 3), (PStr ''scale'', PInt 5)])"
    by (simp add: mp_get_def)
  have h4: "ModifyAttributes flat_host
     \<lparr>g_bInBlenderContext = True, AssertConfigType = (\<lambda>d t. True)\<rparr>
     [([''name''], PStr ''Cube''), ([''scale''], PInt 1)] []
     [(''sDTI'', PStr ''/catharsys/blender/modify/object/attributes:1.0''),
      (''mValues'', PDict [(PStr ''scale'', PInt 2), (PStr ''data.x'', PInt 3),
                          (PStr ''scale'', PInt 5)])] =
   (Some (NoAttribute ''Cube'' ''data''), [([''name''], PStr ''Cube''), ([''scale''], PInt 2)])"
    by (simp add: ModifyAttributes_def CModifyAttributesParams_def field_value_def mp_get_def
          ModifyAttributes_item_def flat_host_def)
  have h5: "ModifyProperties_loop (\<lambda>v. ''list'') idprop_assign
     (BObj ''Cube'' ''MESH'' False [(''a'', PInt 1), (''b'', PInt 1)] False [])
     [(PStr ''a'', PInt 2), (PStr ''b'', PInt 2147483648), (PStr ''a'', PInt 7)] =
   (Some (Host OverflowError),
    BObj ''Cube'' ''MESH'' False [(''a'', PInt 2), (''b'', PInt 1)] False [])"
    by (simp add: idprop_assign_def)
  have h6: "ModifyProperties (\<lambda>v. ''list'') idprop_assign
     \<lparr>g_bInBlenderContext = True, AssertConfigType = (\<lambda>d t. True)\<rparr>
     (BObj ''Cube'' ''MESH'' False [(''a'', PInt 1), (''b'', PInt 1)] False [])
     [(''sDTI'', PStr ''/catharsys/blender/modify/object/properties:1.0''),
      (''mValues'', PDict [(PStr ''a'', PInt 2), (PStr ''b'', PInt 2147483648),
                          (PStr ''a'', PInt 7)])] =
   (Some (AttributeError ''dicValues''),
    BObj ''Cube'' ''MESH'' False [(''a'', PInt 1), (''b'', PInt 1)] False [])"
    by (simp add: ModifyProperties_def CModifyPropertiesParams_def field_value_def mp_get_def)
  note r = modifiers_apply_prefix
    [where ctx = "\<lparr>g_bInBlenderContext = True, AssertConfigType = (\<lambda>d t. True)\<rparr>"
       and dicMod = "[(''sDTI'', PStr ''/catharsys/blender/modify/object/attributes:1.0''),
          (''mValues'', PDict [(PStr ''scale'', PInt 2), (PStr ''data.x'', PInt 3),
                              (PStr ''scale'', PInt 5)])]"
       and mp = "[(''sDTI'', PStr ''/catharsys/blender/modify/object/attributes:1.0''),
          (''mValues'', PDict [(PStr ''scale'', PInt 2), (PStr ''data.x'', PInt 3),
                              (PStr ''scale'', PInt 5)])]"
       and items = "[(PStr ''scale'', PInt 2), (PStr ''data.x'', PInt 3), (PStr ''scale'', PInt 5)]"
       and H = flat_host
       and s = "[([''name''], PStr ''Cube''), ([''scale''], PInt 1)]"
       and objX = "[]"
       and e = "NoAttribute ''Cube'' ''data''"
       and s' = "[([''name''], PStr ''Cube''), ([''scale''], PInt 2)]"
       and T = "\<lambda>v. ''list''"
       and A = idprop_assign
       and ob = "BObj ''Cube'' ''MESH'' False [(''a'', PInt 1), (''b'', PInt 1)] False []"
       and items' = "[(PStr ''a'', PInt 2), (PStr ''b'', PInt 2147483648), (PStr ''a'', PInt 7)]"
       and e' = "Host OverflowError"
       and ob' = "BObj ''Cube'' ''MESH'' False [(''a'', PInt 2), (''b'', PInt 1)] False []"
       and ctx' = "\<lparr>g_bInBlenderContext = True, AssertConfigType = (\<lambda>d t. True)\<rparr>"
       and dic = "[(''sDTI'', PStr ''/catharsys/blender/modify/object/properties:1.0''),
          (''mValues'', PDict [(PStr ''a'', PInt 2), (PStr ''b'', PInt 2147483648),
                              (PStr ''a'', PInt 7)])]"
       and r = "Some (AttributeError ''dicValues'')"
       and ob'' = "BObj ''Cube'' ''MESH'' False [(''a'', PInt 1), (''b'', PInt 1)] False []"]
  note c1 = r [THEN conjunct1, rule_format, OF conjI [OF h1 conjI [OF h2 conjI [OF h3 h4]]]]
  note c2 = r [THEN conjunct2, THEN conjunct1, rule_format, OF h5]
  show ?thesis
    by (intro conjI h1 h2 h3 h4 h5 h6 c1 c2)
qed

section \<open>ParentToObject\<close>

text \<open>
  Claim C5. On an accepted configuration \<^verbatim>\<open>ParentToObject\<close> does the following. For a camera
  object it calls the camera routine \<^verbatim>\<open>ParentAnyCam\<close> with the names of the camera and of
  the parent, and no other parenting routine. For any other object: when no object has
  the parent's name, it raises "Object '...' not found for parenting" if
  \<^verbatim>\<open>bSkipNonexistingParent\<close> is false, and if it is true it parents nothing and returns
  without error; when the parent exists it calls \<^verbatim>\<open>ParentObject\<close> for the parent and the
  object with \<^verbatim>\<open>bKeepTransform\<close> as given. The view layer is updated whenever no error
  is raised.
\<close>

theorem ParentToObject_cases:
  assumes "paramclass CParentToObjectParams dicMod = Inr mp"
  shows "\<exists>sp k sk.
           mp_get mp ''sParentObject'' = Inr (PStr sp) \<and>
           mp_get mp ''bKeepTransform'' = Inr (PBool k) \<and>
           mp_get mp ''bSkipNonexistingParent'' = Inr (PBool sk) \<and>
           ParentToObject obs objX dicMod =
             (if otype objX = ''CAMERA''
              then (None, [ParentAnyCam (name objX) (PStr sp), ViewLayerUpdate])
              else
                (case List.find (\<lambda>ob. name ob = sp) obs of
                   None \<Rightarrow>
                     if sk then (None, [ViewLayerUpdate])
                     else (Some (ParentNotFound (PStr sp)), [])
                 | Some objParent \<Rightarrow>
                     (None, [ParentObject (name objParent) (name objX) (PBool k),
                             ViewLayerUpdate])))"
proof -
  from CParentToObjectParams_instance [OF assms] obtain d sp k sk where
    mp: "mp = [(''sDTI'', PStr d), (''sParentObject'', PStr sp),
               (''bKeepTransform'', PBool k), (''bSkipNonexistingParent'', PBool sk)]"
    by blast
  show ?thesis
    using assms by (simp add: ParentToObject_def mp mp_get_def split: option.splits)
qed

theorem ParentToObject_cases_witness:
  "paramclass CParentToObjectParams
     [(''sDTI'', PStr ''/catharsys/blender/modify/object/parent:1.0''),
      (''sParentObject'', PStr ''Car''), (''bKeepTransform'', PBool True)] =
   Inr [(''sDTI'', PStr ''/catharsys/blender/modify/object/parent:1.0''),
        (''sParentObject'', PStr ''Car''), (''bKeepTransform'', PBool True),
        (''bSkipNonexistingParent'', PBool False)] \<and>
   ParentToObject
     [BObj ''Car'' ''EMPTY'' False [] False [], BObj ''Wheel'' ''MESH'' False [] False []]
     (BObj ''Wheel'' ''MESH'' False [] False [])
     [(''sDTI'', PStr ''/catharsys/blender/modify/object/parent:1.0''),
      (''sParentObject'', PStr ''Car''), (''bKeepTransform'', PBool True)] =
   (None, [ParentObject ''Car'' ''Wheel'' (PBool True), ViewLayerUpdate]) \<and>
   ParentToObject
     [BObj ''Wheel'' ''MESH'' False [] False []]
     (BObj ''Wheel'' ''MESH'' False [] False [])
     [(''sDTI'', PStr ''/catharsys/blender/modify/object/parent:1.0''),
      (''sParentObject'', PStr ''Car''), (''bKeepTransform'', PBool True)] =
   (Some (ParentNotFound (PStr ''Car'')), [])"
proof -
  have h: "paramclass CParentToObjectParams
     [(''sDTI'', PStr ''/catharsys/blender/modify/object/parent:1.0''),
      (''sParentObject'', PStr ''Car''), (''bKeepTransform'', PBool True)] =
   Inr [(''sDTI'', PStr ''/catharsys/blender/modify/object/parent:1.0''),
        (''sParentObject'', PStr ''Car''), (''bKeepTransform'', PBool True),
        (''bSkipNonexistingParent'', PBool False)]"
    by (simp add: CParentToObjectParams_def field_value_def)
  from ParentToObject_cases [OF h,
         of "[BObj ''Car'' ''EMPTY'' False [] False [], BObj ''Wheel'' ''MESH'' False [] False []]"
            "BObj ''Wheel'' ''MESH'' False [] False []"]
  have a: "ParentToObject
     [BObj ''Car'' ''EMPTY'' False [] False [], BObj ''Wheel'' ''MESH'' False [] False []]
     (BObj ''Wheel'' ''MESH'' False [] False [])
     [(''sDTI'', PStr ''/catharsys/blender/modify/object/parent:1.0''),
      (''sParentObject'', PStr ''Car''), (''bKeepTransform'', PBool True)] =
   (None, [ParentObject ''Car'' ''Wheel'' (PBool True), ViewLayerUpdate])"
    by (auto simp: mp_get_def)
  from ParentToObject_cases [OF h,
         of "[BObj ''Wheel'' ''MESH'' False [] False []]"
            "BObj ''Wheel'' ''MESH'' False [] False []"]
  have b: "ParentToObject
     [BObj ''Wheel'' ''MESH'' False [] False []]
     (BObj ''Wheel'' ''MESH'' False [] False [])
     [(''sDTI'', PStr ''/catharsys/blender/modify/object/parent:1.0''),
      (''sParentObject'', PStr ''Car''), (''bKeepTransform'', PBool True)] =
   (Some (ParentNotFound (PStr ''Car'')), [])"
    by (auto simp: mp_get_def)
  show ?thesis
    by (intro conjI h a b)
qed

section \<open>ExportObjectObj\<close>

text \<open>In the file system of the examples a directory exists once \<^verbatim>\<open>mkdir\<close> has returned
  without error.\<close>

lemma posix_ancestors_self: "p \<in> set (posix_ancestors p)"
proof -
  have "PPath (absolute p) (take (length (parts p)) (parts p)) = p"
    by (cases p) simp
  moreover have "length (parts p) \<in> set [0..<Suc (length (parts p))]"
    by simp
  ultimately have
    "p \<in> (\<lambda>n. PPath (absolute p) (take n (parts p))) ` set [0..<Suc (length (parts p))]"
    by (metis (no_types, lifting) image_eqI)
  then show ?thesis
    by (simp add: posix_ancestors_def del: upt_Suc)
qed

lemma posix_mkdir_exists:
  assumes "posix_mkdir fs p = (None, fs1)"
  shows "map_of fs1 p \<noteq> None"
proof (cases "map_of fs p")
  case (Some k)
  with assms show ?thesis
    by (auto simp: posix_mkdir_def map_add_def split: if_splits)
next
  case None
  with posix_ancestors_self [of p]
  have "p \<in> set (filter (\<lambda>a. map_of fs a = None) (posix_ancestors p))"
    by simp
  then have "map_of (map (\<lambda>a. (a, Directory))
               (filter (\<lambda>a. map_of fs a = None) (posix_ancestors p))) p = Some Directory"
    by (simp add: map_of_map_restrict del: set_filter)
  with assms None show ?thesis
    by (auto simp: posix_mkdir_def map_add_def split: if_splits)
qed




section \<open>EnableIfBoundBox and LogObject ignore the configuration\<close>

text \<open>
  Claim C9. \<^verbatim>\<open>EnableIfBoundBox\<close> and \<^verbatim>\<open>LogObject\<close> read their parameters from the class, not
  from the dictionary. For two dictionaries that both pass the configuration-type
  assertion, \<^verbatim>\<open>EnableIfBoundBox\<close> raises the same error or makes the same calls on the same
  object; \<^verbatim>\<open>LogObject\<close>, which has no assertion, does so for any two dictionaries. The
  values of \<^verbatim>\<open>sTarget\<close>, \<^verbatim>\<open>bCompoundTarget\<close>, \<^verbatim>\<open>fBorder\<close>, \<^verbatim>\<open>sRelation\<close>, \<^verbatim>\<open>lAttributes\<close> and
  \<^verbatim>\<open>sLogFile\<close> in the dictionary have no effect.
\<close>

theorem class_bound_params_ignore_config:
  "(AssertConfigType ctx d1 ''/catharsys/blender/modify/object/enable-if/bound-box:1.0'' \<and>
    AssertConfigType ctx d2 ''/catharsys/blender/modify/object/enable-if/bound-box:1.0'' \<longrightarrow>
      EnableIfBoundBox ctx cls B obs objX d1 = EnableIfBoundBox ctx cls B obs objX d2) \<and>
   LogObject L cls' objX' d1 = LogObject L cls' objX' d2"
  by (simp add: EnableIfBoundBox_def LogObject_def)

text \<open>Two dictionaries that name different targets and relations, and a class whose
  attributes are objects of the decorator.\<close>

theorem class_bound_params_ignore_config_witness:
  "AssertConfigType
     \<lparr>g_bInBlenderContext = True,
      AssertConfigType = (\<lambda>d t. map_of d ''sDTI'' = Some (PStr t))\<rparr>
     [(''sDTI'', PStr ''/catharsys/blender/modify/object/enable-if/bound-box:1.0''),
      (''xValue'', PBool True), (''sTarget'', PStr ''Room'')]
     ''/catharsys/blender/modify/object/enable-if/bound-box:1.0'' \<and>
   AssertConfigType
     \<lparr>g_bInBlenderContext = True,
      AssertConfigType = (\<lambda>d t. map_of d ''sDTI'' = Some (PStr t))\<rparr>
     [(''sDTI'', PStr ''/catharsys/blender/modify/object/enable-if/bound-box:1.0''),
      (''xValue'', PBool True), (''sTarget'', PStr ''Garage''), (''sRelation'', PStr ''OUTSIDE'')]
     ''/catharsys/blender/modify/object/enable-if/bound-box:1.0'' \<and>
   EnableIfBoundBox
     \<lparr>g_bInBlenderContext = True,
      AssertConfigType = (\<lambda>d t. map_of d ''sDTI'' = Some (PStr t))\<rparr>
     [(''sTarget'', POpaque 0), (''bCompoundTarget'', POpaque 1), (''fBorder'', POpaque 2),
      (''sRelation'', POpaque 3)]
     \<lparr>IsObjectInside = (\<lambda>t c x b. True), IsObjectOutside = (\<lambda>t c x b. False),
      IsObjectIntersect = (\<lambda>t c x b. False)\<rparr>
     [BObj ''Room'' ''MESH'' False [] False [], BObj ''Garage'' ''MESH'' False [] False []]
     (BObj ''Cube'' ''MESH'' False [] False [])
     [(''sDTI'', PStr ''/catharsys/blender/modify/object/enable-if/bound-box:1.0''),
      (''xValue'', PBool True), (''sTarget'', PStr ''Room'')] =
   EnableIfBoundBox
     \<lparr>g_bInBlenderContext = True,
      AssertConfigType = (\<lambda>d t. map_of d ''sDTI'' = Some (PStr t))\<rparr>
     [(''sTarget'', POpaque 0), (''bCompoundTarget'', POpaque 1), (''fBorder'', POpaque 2),
      (''sRelation'', POpaque 3)]
     \<lparr>IsObjectInside = (\<lambda>t c x b. True), IsObjectOutside = (\<lambda>t c x b. False),
      IsObjectIntersect = (\<lambda>t c x b. False)\<rparr>
     [BObj ''Room'' ''MESH'' False [] False [], BObj ''Garage'' ''MESH'' False [] False []]
     (BObj ''Cube'' ''MESH'' False [] False [])
     [(''sDTI'', PStr ''/catharsys/blender/modify/object/enable-if/bound-box:1.0''),
      (''xValue'', PBool True), (''sTarget'', PStr ''Garage''), (''sRelation'', PStr ''OUTSIDE'')]"
proof -
  have h1: "AssertConfigType
     \<lparr>g_bInBlenderContext = True,
      AssertConfigType = (\<lambda>d t. map_of d ''sDTI'' = Some (PStr t))\<rparr>
     [(''sDTI'', PStr ''/catharsys/blender/modify/object/enable-if/bound-box:1.0''),
      (''xValue'', PBool True), (''sTarget'', PStr ''Room'')]
     ''/catharsys/blender/modify/object/enable-if/bound-box:1.0''"
    by simp
  have h2: "AssertConfigType
     \<lparr>g_bInBlenderContext = True,
      AssertConfigType = (\<lambda>d t. map_of d ''sDTI'' = Some (PStr t))\<rparr>
     [(''sDTI'', PStr ''/catharsys/blender/modify/object/enable-if/bound-box:1.0''),
      (''xValue'', PBool True), (''sTarget'', PStr ''Garage''), (''sRelation'', PStr ''OUTSIDE'')]
     ''/catharsys/blender/modify/object/enable-if/bound-box:1.0''"
    by simp
  note r = class_bound_params_ignore_config
    [THEN conjunct1, rule_format, OF conjI, OF h1 h2]
  show ?thesis
    by (intro conjI h1 h2 r)
qed

end
